theory Spec2Isabelle
  imports Complex_Main "HOL-Library.Log_Nat"
begin

section \<open>JavaScript numbers\<close>

text \<open>
  The action's arithmetic is done on JavaScript numbers, the binary64 values of IEEE 754.
  A number is modelled as
  \<^item> \<open>NaN\<close>, \<open>PInf\<close> (\<open>Infinity\<close>), \<open>NInf\<close> (\<open>-Infinity\<close>), \<open>NZero\<close> (\<open>-0\<close>), or
  \<^item> \<open>Fin x\<close>, a finite value given by the real number it is, where \<open>Fin 0\<close> is \<open>+0\<close>.

  Every arithmetic operation computes the exact real result and rounds it to the nearest
  binary64 value, ties to even, overflowing to an infinity and underflowing through the
  subnormal values to a zero of the right sign, as ECMAScript specifies.
\<close>

datatype jsnum = NaN | PInf | NInf | NZero | Fin real

definition isInf :: "jsnum \<Rightarrow> bool" where
  "isInf a = (a = PInf \<or> a = NInf)"

definition isZero :: "jsnum \<Rightarrow> bool" where
  "isZero a = (a = NZero \<or> a = Fin 0)"

text \<open>The sign bit (of no use on NaN).\<close>

fun signbit :: "jsnum \<Rightarrow> bool" where
  "signbit NaN = False"
| "signbit PInf = False"
| "signbit NInf = True"
| "signbit NZero = True"
| "signbit (Fin x) = (x < 0)"

text \<open>The real value of a finite number or zero (0 elsewhere, where it is not used).\<close>

fun val :: "jsnum \<Rightarrow> real" where
  "val (Fin x) = x"
| "val _ = 0"

definition signed_zero :: "bool \<Rightarrow> jsnum" where
  "signed_zero s = (if s then NZero else Fin 0)"

definition signed_inf :: "bool \<Rightarrow> jsnum" where
  "signed_inf s = (if s then NInf else PInf)"

text \<open>The finite value of a number, when it has one.\<close>

fun finite_val :: "jsnum \<Rightarrow> real option" where
  "finite_val (Fin x) = Some x"
| "finite_val NZero = Some 0"
| "finite_val _ = None"

fun js_neg :: "jsnum \<Rightarrow> jsnum" where
  "js_neg NaN = NaN"
| "js_neg PInf = NInf"
| "js_neg NInf = PInf"
| "js_neg NZero = Fin 0"
| "js_neg (Fin x) = (if x = 0 then NZero else Fin (- x))"

subsection \<open>Rounding to binary64\<close>

text \<open>\<open>ilog2 y\<close> is the integer \<open>k\<close> with \<open>2^k \<le> y < 2^(k+1)\<close>, for a positive \<open>y\<close>.\<close>

definition ilog2 :: "real \<Rightarrow> int" where
  "ilog2 y = (if 1 \<le> y then bitlen \<lfloor>y\<rfloor> - 1 else - bitlen (\<lceil>1 / y\<rceil> - 1))"

text \<open>The integer nearest to \<open>t\<close>, the even one of the two when \<open>t\<close> is halfway.\<close>

definition round_half_even :: "real \<Rightarrow> int" where
  "round_half_even t =
     (let f = \<lfloor>t\<rfloor>; d = t - of_int f
      in if d < 1 / 2 then f else if 1 / 2 < d then f + 1 else if even f then f else f + 1)"

text \<open>
  A positive real rounded to binary64: the significand has 53 bits, or fewer below
  \<open>2^-1022\<close>, where the exponent stays at \<open>-1074\<close>; a result of \<open>2^1024\<close> or more is
  \<open>Infinity\<close>.
\<close>

definition round_mag :: "real \<Rightarrow> jsnum" where
  "round_mag y =
     (let e = max (- 1074) (ilog2 y - 52);
          r = of_int (round_half_even (y / 2 powi e)) * 2 powi e
      in if 2 ^ 1024 \<le> r then PInf else Fin r)"

text \<open>A real rounded to binary64; an exact zero is \<open>+0\<close>.\<close>

definition round64 :: "real \<Rightarrow> jsnum" where
  "round64 y = (if y = 0 then Fin 0 else if 0 < y then round_mag y else js_neg (round_mag (- y)))"


subsection \<open>Arithmetic and comparison\<close>

text \<open>\<open>a + b\<close> on numbers.\<close>

definition js_add :: "jsnum \<Rightarrow> jsnum \<Rightarrow> jsnum" where
  "js_add a b =
     (if a = NaN \<or> b = NaN then NaN
      else if isInf a \<and> isInf b then (if a = b then a else NaN)
      else if isInf a then a
      else if isInf b then b
      else if a = NZero \<and> b = NZero then NZero
      else round64 (val a + val b))"

text \<open>\<open>a - b\<close> on numbers.\<close>

definition js_sub :: "jsnum \<Rightarrow> jsnum \<Rightarrow> jsnum" where
  "js_sub a b = js_add a (js_neg b)"

text \<open>\<open>a * b\<close> on numbers.\<close>

definition js_mul :: "jsnum \<Rightarrow> jsnum \<Rightarrow> jsnum" where
  "js_mul a b =
     (if a = NaN \<or> b = NaN then NaN
      else if (isInf a \<and> isZero b) \<or> (isZero a \<and> isInf b) then NaN
      else if isInf a \<or> isInf b then signed_inf (signbit a \<noteq> signbit b)
      else if isZero a \<or> isZero b then signed_zero (signbit a \<noteq> signbit b)
      else round64 (val a * val b))"

text \<open>\<open>a / b\<close> on numbers.\<close>

definition js_div :: "jsnum \<Rightarrow> jsnum \<Rightarrow> jsnum" where
  "js_div a b =
     (if a = NaN \<or> b = NaN then NaN
      else if isInf a \<and> isInf b then NaN
      else if isZero a \<and> isZero b then NaN
      else if isInf a then signed_inf (signbit a \<noteq> signbit b)
      else if isInf b then signed_zero (signbit a \<noteq> signbit b)
      else if isZero b then signed_inf (signbit a \<noteq> signbit b)
      else if isZero a then signed_zero (signbit a \<noteq> signbit b)
      else round64 (val a / val b))"

text \<open>\<open>a > b\<close> on numbers: false when either side is NaN; \<open>-0\<close> and \<open>+0\<close> are equal.\<close>

definition js_gt :: "jsnum \<Rightarrow> jsnum \<Rightarrow> bool" where
  "js_gt a b =
     (if a = NaN \<or> b = NaN then False
      else if a = PInf then b \<noteq> PInf
      else if b = NInf then a \<noteq> NInf
      else if a = NInf \<or> b = PInf then False
      else val a > val b)"

text \<open>\<open>a < b\<close> on numbers.\<close>

definition js_lt :: "jsnum \<Rightarrow> jsnum \<Rightarrow> bool" where
  "js_lt a b = js_gt b a"

text \<open>The numbers that are not NaN and not below zero, and those not above zero.\<close>

fun not_negative :: "jsnum \<Rightarrow> bool" where
  "not_negative NaN = False"
| "not_negative PInf = True"
| "not_negative NInf = False"
| "not_negative NZero = True"
| "not_negative (Fin x) = (0 \<le> x)"

fun not_positive :: "jsnum \<Rightarrow> bool" where
  "not_positive NaN = False"
| "not_positive PInf = False"
| "not_positive NInf = True"
| "not_positive NZero = True"
| "not_positive (Fin x) = (x \<le> 0)"

text \<open>\<open>Math.max(a, b)\<close>: NaN when either argument is NaN; \<open>+0\<close> is larger than \<open>-0\<close>.\<close>

definition Math_max :: "jsnum \<Rightarrow> jsnum \<Rightarrow> jsnum" where
  "Math_max a b =
     (if a = NaN \<or> b = NaN then NaN
      else if js_gt a b then a
      else if js_gt b a then b
      else if a = NZero then b
      else a)"

text \<open>The integer square root: the largest integer whose square is at most \<open>n\<close>.\<close>

function isqrt :: "int \<Rightarrow> int" where
  "isqrt n =
     (if n < 2 then max 0 n
      else let r = 2 * isqrt (n div 4) in if (r + 1) * (r + 1) \<le> n then r + 1 else r)"
  by pat_completeness auto
termination
  by (relation "measure nat") auto

declare isqrt.simps [simp del]

text \<open>
  The square root of a positive number, rounded to binary64: with the exponent \<open>e\<close> of
  the result, the significand is the integer nearest to the square root of \<open>x / 2^(2e)\<close>,
  found from the integer square root by comparing \<open>x / 2^(2e)\<close> with the square of the
  midpoint. The result neither overflows nor is subnormal.
\<close>

definition sqrt_mag :: "real \<Rightarrow> jsnum" where
  "sqrt_mag x =
     (let e = ilog2 x div 2 - 52;
          X = x / 2 powi (2 * e);
          f = isqrt \<lfloor>X\<rfloor>;
          h = (of_int f + 1 / 2) * (of_int f + 1 / 2);
          m = (if X < h then f else if h < X then f + 1 else if even f then f else f + 1)
      in Fin (of_int m * 2 powi e))"

text \<open>\<open>Math.sqrt(a)\<close>.\<close>

fun Math_sqrt :: "jsnum \<Rightarrow> jsnum" where
  "Math_sqrt NaN = NaN"
| "Math_sqrt PInf = PInf"
| "Math_sqrt NInf = NaN"
| "Math_sqrt NZero = NZero"
| "Math_sqrt (Fin x) = (if x < 0 then NaN else if x = 0 then Fin 0 else sqrt_mag x)"

section \<open>JavaScript strings and values\<close>

text \<open>
  A string is the list of the bytes of its UTF-8 encoding. \<open>startsWith s m\<close> is
  \<open>s.startsWith(m)\<close>.
\<close>

fun startsWith :: "string \<Rightarrow> string \<Rightarrow> bool" where
  "startsWith s [] = True"
| "startsWith [] (d # ds) = False"
| "startsWith (c # cs) (d # ds) = (c = d \<and> startsWith cs ds)"

subsection \<open>A number as a string\<close>

text \<open>The number of decimal digits of a positive integer.\<close>

function declen :: "int \<Rightarrow> int" where
  "declen n = (if n \<le> 0 then 0 else declen (n div 10) + 1)"
  by pat_completeness auto
termination
  by (relation "measure nat") auto

declare declen.simps [simp del]

text \<open>\<open>ilog10 y\<close> is the integer \<open>k\<close> with \<open>10^k \<le> y < 10^(k+1)\<close>, for a positive \<open>y\<close>.\<close>

definition ilog10 :: "real \<Rightarrow> int" where
  "ilog10 y = (if 1 \<le> y then declen \<lfloor>y\<rfloor> - 1 else - declen (\<lceil>1 / y\<rceil> - 1))"

text \<open>The decimal digits of a natural number.\<close>

function digits_of :: "int \<Rightarrow> string" where
  "digits_of n =
     (if n < 10 then [char_of (48 + max 0 n)]
      else digits_of (n div 10) @ [char_of (48 + n mod 10)])"
  by pat_completeness auto
termination
  by (relation "measure nat") auto

declare digits_of.simps [simp del]

text \<open>
  \<open>Number::toString\<close> writes a positive \<open>x\<close> with the fewest digits \<open>s\<close> such that
  \<open>s * 10^p\<close> rounds to \<open>x\<close>, and of those the \<open>s\<close> nearest to \<open>x\<close>. For a given \<open>p\<close> only the
  two integers around \<open>x / 10^p\<close> can do.
\<close>

definition pick_digits :: "real \<Rightarrow> int \<Rightarrow> int option" where
  "pick_digits x p =
     (let f = \<lfloor>x / 10 powi p\<rfloor>;
          lo = of_int f * 10 powi p;
          hi = of_int (f + 1) * 10 powi p;
          okLo = (round64 lo = Fin x);
          okHi = (round64 hi = Fin x)
      in if okLo \<and> okHi
         then (if x - lo < hi - x then Some f
               else if hi - x < x - lo then Some (f + 1)
               else if even f then Some f else Some (f + 1))
         else if okLo then Some f
         else if okHi then Some (f + 1)
         else None)"

text \<open>
  The digits and their number \<open>k\<close>, trying \<open>k\<close>, \<open>k + 1\<close>, ... digits for as many steps as the
  first argument says; 17 digits always suffice for a binary64 value.
\<close>

fun shortest :: "nat \<Rightarrow> int \<Rightarrow> int \<Rightarrow> real \<Rightarrow> int \<times> int" where
  "shortest 0 k n x = (round_half_even (x / 10 powi (n - k)), k)"
| "shortest (Suc fuel) k n x =
     (case pick_digits x (n - k) of
        Some s \<Rightarrow> (s, k)
      | None \<Rightarrow> shortest fuel (k + 1) n x)"

text \<open>
  The text of the \<open>k\<close> digits \<open>s\<close> of a number between \<open>10^(n-1)\<close> and \<open>10^n\<close>: plain digits
  up to 21 of them before the decimal point and down to 6 zeros after it, otherwise with
  an exponent.
\<close>

definition format_digits :: "int \<Rightarrow> int \<Rightarrow> int \<Rightarrow> string" where
  "format_digits s k n =
     (let ds = digits_of s in
      if k \<le> n \<and> n \<le> 21 then ds @ replicate (nat (n - k)) CHR ''0''
      else if 0 < n \<and> n \<le> 21 then take (nat n) ds @ ''.'' @ drop (nat n) ds
      else if - 6 < n \<and> n \<le> 0 then ''0.'' @ replicate (nat (- n)) CHR ''0'' @ ds
      else
        (let ex = n - 1;
             es = (if ex < 0 then ''-'' else ''+'') @ digits_of \<bar>ex\<bar>
         in if k = 1 then ds @ ''e'' @ es else hd ds # ''.'' @ tl ds @ ''e'' @ es))"

definition positive_toString :: "real \<Rightarrow> string" where
  "positive_toString x =
     (let n0 = ilog10 x + 1;
          (s, k) = shortest 16 1 n0 x
      in if s = 10 ^ nat k then format_digits (10 ^ nat (k - 1)) k (n0 + 1)
         else format_digits s k n0)"

text \<open>\<open>Number::toString(n)\<close>, in radix 10.\<close>

fun Number_toString :: "jsnum \<Rightarrow> string" where
  "Number_toString NaN = ''NaN''"
| "Number_toString PInf = ''Infinity''"
| "Number_toString NInf = ''-Infinity''"
| "Number_toString NZero = ''0''"
| "Number_toString (Fin x) =
     (if x = 0 then ''0'' else if x < 0 then ''-'' @ positive_toString (- x)
      else positive_toString x)"

subsection \<open>A string as a number\<close>

text \<open>
  The white space and line terminators that \<open>StringToNumber\<close> strips: tab, line feed,
  vertical tab, form feed, carriage return, space, and the encodings of U+00A0, U+1680,
  U+2000 to U+200A, U+2028, U+2029, U+202F, U+205F, U+3000 and U+FEFF.
\<close>

definition whiteSpace :: "string list" where
  "whiteSpace =
     [[CHR 0x09], [CHR 0x0A], [CHR 0x0B], [CHR 0x0C], [CHR 0x0D], [CHR 0x20],
      [CHR 0xC2, CHR 0xA0], [CHR 0xE1, CHR 0x9A, CHR 0x80],
      [CHR 0xE2, CHR 0x80, CHR 0x80], [CHR 0xE2, CHR 0x80, CHR 0x81],
      [CHR 0xE2, CHR 0x80, CHR 0x82], [CHR 0xE2, CHR 0x80, CHR 0x83],
      [CHR 0xE2, CHR 0x80, CHR 0x84], [CHR 0xE2, CHR 0x80, CHR 0x85],
      [CHR 0xE2, CHR 0x80, CHR 0x86], [CHR 0xE2, CHR 0x80, CHR 0x87],
      [CHR 0xE2, CHR 0x80, CHR 0x88], [CHR 0xE2, CHR 0x80, CHR 0x89],
      [CHR 0xE2, CHR 0x80, CHR 0x8A], [CHR 0xE2, CHR 0x80, CHR 0xA8],
      [CHR 0xE2, CHR 0x80, CHR 0xA9], [CHR 0xE2, CHR 0x80, CHR 0xAF],
      [CHR 0xE2, CHR 0x81, CHR 0x9F], [CHR 0xE3, CHR 0x80, CHR 0x80],
      [CHR 0xEF, CHR 0xBB, CHR 0xBF]]"

text \<open>
  The string without the codes it starts with; the number says how many bytes of the code
  being dropped are still to drop.
\<close>

fun strip :: "string list \<Rightarrow> nat \<Rightarrow> string \<Rightarrow> string" where
  "strip codes k [] = []"
| "strip codes k (c # cs) =
     (if 0 < k then strip codes (k - 1) cs
      else case find (startsWith (c # cs)) codes of
             None \<Rightarrow> c # cs
           | Some w \<Rightarrow> strip codes (length w - 1) cs)"

definition trim :: "string \<Rightarrow> string" where
  "trim s = rev (strip (map rev whiteSpace) 0 (rev (strip whiteSpace 0 s)))"

text \<open>The value of a digit, decimal or hexadecimal.\<close>

definition digit_value :: "char \<Rightarrow> int option" where
  "digit_value c =
     (let n = (of_char c :: nat) in
      if 48 \<le> n \<and> n \<le> 57 then Some (int n - 48)
      else if 97 \<le> n \<and> n \<le> 102 then Some (int n - 87)
      else if 65 \<le> n \<and> n \<le> 70 then Some (int n - 55)
      else None)"

definition is_digit :: "int \<Rightarrow> char \<Rightarrow> bool" where
  "is_digit radix c = (case digit_value c of None \<Rightarrow> False | Some d \<Rightarrow> d < radix)"

definition digits_value :: "int \<Rightarrow> string \<Rightarrow> int" where
  "digits_value radix ds =
     foldl (\<lambda>a c. a * radix + (case digit_value c of None \<Rightarrow> 0 | Some d \<Rightarrow> d)) 0 ds"

text \<open>The digits after \<open>0x\<close>, \<open>0o\<close> or \<open>0b\<close>.\<close>

definition integer_literal :: "int \<Rightarrow> string \<Rightarrow> jsnum" where
  "integer_literal radix ds =
     (if ds \<noteq> [] \<and> list_all (is_digit radix) ds then round64 (of_int (digits_value radix ds))
      else NaN)"

text \<open>The exponent part that ends a decimal literal: nothing, or \<open>e\<close>, a sign and digits.\<close>

definition exponent_part :: "string \<Rightarrow> int option" where
  "exponent_part s =
     (case s of
        [] \<Rightarrow> Some 0
      | c # r \<Rightarrow>
          if c = CHR ''e'' \<or> c = CHR ''E'' then
            (let neg = startsWith r ''-'';
                 ds = (if neg \<or> startsWith r ''+'' then tl r else r)
             in if ds \<noteq> [] \<and> list_all (is_digit 10) ds
                then Some ((if neg then - 1 else 1) * digits_value 10 ds)
                else None)
          else None)"

text \<open>
  A signed decimal literal: \<open>Infinity\<close>, or digits with an optional fraction and
  exponent, of which the integer digits or the fraction digits may be missing, not both.
\<close>

definition decimal_literal :: "string \<Rightarrow> jsnum" where
  "decimal_literal s =
     (let neg = startsWith s ''-'';
          u = (if neg \<or> startsWith s ''+'' then tl s else s)
      in if u = ''Infinity'' then signed_inf neg
         else
           (let ip = takeWhile (is_digit 10) u;
                r1 = dropWhile (is_digit 10) u;
                dot = startsWith r1 ''.'';
                fp = (if dot then takeWhile (is_digit 10) (tl r1) else []);
                r2 = (if dot then dropWhile (is_digit 10) (tl r1) else r1)
            in if ip = [] \<and> fp = [] then NaN
               else case exponent_part r2 of
                      None \<Rightarrow> NaN
                    | Some ex \<Rightarrow>
                        (let v = of_int (digits_value 10 (ip @ fp)) * 10 powi (ex - int (length fp))
                         in if v = 0 then signed_zero neg
                            else if neg then round64 (- v) else round64 v)))"

text \<open>\<open>StringToNumber(str)\<close>: the empty or blank string is \<open>+0\<close>, what is no literal is NaN.\<close>

definition StringToNumber :: "string \<Rightarrow> jsnum" where
  "StringToNumber str =
     (let s = trim str in
      if s = [] then Fin 0
      else if startsWith s ''0x'' \<or> startsWith s ''0X'' then integer_literal 16 (drop 2 s)
      else if startsWith s ''0o'' \<or> startsWith s ''0O'' then integer_literal 8 (drop 2 s)
      else if startsWith s ''0b'' \<or> startsWith s ''0B'' then integer_literal 2 (drop 2 s)
      else decimal_literal s)"

subsection \<open>Values\<close>

text \<open>
  The values a field of a benchmark payload holds: \<open>undefined\<close> (also what reading a
  missing field gives), \<open>null\<close>, a boolean, a number, a string, an array, or a plain
  object, of which nothing but its being one matters here.
\<close>

datatype jsval = Undefined | Null | Bool bool | Num jsnum | Str string | Arr "jsval list" | Obj

text \<open>\<open>xs.join(',')\<close> on strings.\<close>

fun join :: "string list \<Rightarrow> string" where
  "join [] = []"
| "join [s] = s"
| "join (s # t # ss) = s @ '','' @ join (t # ss)"

text \<open>
  \<open>ToString(v)\<close>; an array is its elements joined by commas, \<open>undefined\<close> and \<open>null\<close>
  elements being empty.
\<close>

fun ToString :: "jsval \<Rightarrow> string" where
  "ToString Undefined = ''undefined''"
| "ToString Null = ''null''"
| "ToString (Bool b) = (if b then ''true'' else ''false'')"
| "ToString (Num n) = Number_toString n"
| "ToString (Str s) = s"
| "ToString Obj = ''[object Object]''"
| "ToString (Arr xs) =
     join (map (\<lambda>x. if x = Undefined \<or> x = Null then [] else ToString x) xs)"

text \<open>\<open>Number(v)\<close>, which is \<open>ToNumber(v)\<close>.\<close>

fun Number :: "jsval \<Rightarrow> jsnum" where
  "Number Undefined = NaN"
| "Number Null = Fin 0"
| "Number (Bool b) = (if b then Fin 1 else Fin 0)"
| "Number (Num n) = n"
| "Number (Str s) = StringToNumber s"
| "Number (Arr xs) = StringToNumber (ToString (Arr xs))"
| "Number Obj = NaN"

text \<open>\<open>ToPrimitive(v)\<close>: an array or an object becomes its string.\<close>

fun ToPrimitive :: "jsval \<Rightarrow> jsval" where
  "ToPrimitive (Arr xs) = Str (ToString (Arr xs))"
| "ToPrimitive Obj = Str (ToString Obj)"
| "ToPrimitive v = v"

fun is_Str :: "jsval \<Rightarrow> bool" where
  "is_Str (Str s) = True"
| "is_Str v = False"

text \<open>\<open>l + r\<close> on values: the strings concatenated when either side is a string, otherwise
  the sum of the numbers.\<close>

definition js_plus :: "jsval \<Rightarrow> jsval \<Rightarrow> jsval" where
  "js_plus l r =
     (let lp = ToPrimitive l; rp = ToPrimitive r
      in if is_Str lp \<or> is_Str rp then Str (ToString lp @ ToString rp)
         else Num (js_add (Number lp) (Number rp)))"

text \<open>\<open>v == null\<close>.\<close>

fun eq_null :: "jsval \<Rightarrow> bool" where
  "eq_null Undefined = True"
| "eq_null Null = True"
| "eq_null _ = False"

section \<open>Errors and results\<close>

text \<open>
  A thrown JavaScript error is a value; \<open>message\<close> is its \<open>.message\<close>. A computation that
  may throw returns \<open>js_error + 'a\<close>, with \<open>Inl\<close> for the error thrown.
\<close>

datatype js_error = Error string | TypeError string

fun message :: "js_error \<Rightarrow> string" where
  "message (Error m) = m"
| "message (TypeError m) = m"

definition andThen :: "js_error + 'a \<Rightarrow> ('a \<Rightarrow> js_error + 'b) \<Rightarrow> js_error + 'b" where
  "andThen r f = (case r of Inl e \<Rightarrow> Inl e | Inr x \<Rightarrow> f x)"

section \<open>Benchmark payloads and the comparison table (src/unnamed/part_004)\<close>

text \<open>
  What a benchmark page publishes in \<open>window.benchmarkResult\<close> and the action reads back:
  its \<open>name\<close> and its \<open>fps\<close> field, which is \<open>Undefined\<close> when the payload has none.
\<close>

record payload =
  name :: string
  fps :: jsval

text \<open>The two arrows of the Change column: the red triangle pointing down and the one pointing up.\<close>

datatype arrow = ArrowDown | ArrowUp

text \<open>
  A row of \<open>tableRows\<close>. The fields are JavaScript values, as in the code, where \<open>devFPS\<close>
  and \<open>diffPercent\<close> are \<open>null\<close> for a page without a baseline entry; \<open>t_name\<close> is the
  row's \<open>name\<close>.
\<close>

record table_row =
  t_name :: string
  devFPS :: jsval
  prFPS :: jsval
  diffPercent :: jsval
  regression :: bool
  arrow :: "arrow option"

text \<open>
  \<open>baseline[i]\<close>. The parsed baseline file is a list of entries, \<open>None\<close> for an entry that
  is falsy (\<open>null\<close>, \<open>0\<close>, \<open>false\<close>, the empty string); reading past the end gives \<open>undefined\<close>,
  falsy as well.
\<close>

definition baselineAt :: "payload option list \<Rightarrow> nat \<Rightarrow> payload option" where
  "baselineAt baseline i = (if i < length baseline then baseline ! i else None)"

text \<open>The body of the comparison loop (lines 113-134) for one page.\<close>

definition compareRow :: "jsnum \<Rightarrow> payload \<Rightarrow> payload option \<Rightarrow> table_row" where
  "compareRow perfChange prResult baselineResult =
     (case baselineResult of
        None \<Rightarrow>
          \<lparr>t_name = name prResult, devFPS = Null, prFPS = Num (Number (fps prResult)),
           diffPercent = Null, regression = False, arrow = None\<rparr>
      | Some b \<Rightarrow>
          (let dev = Number (fps b);
               pr = Number (fps prResult);
               d = js_mul (js_div (js_sub dev pr) dev) (Fin 100)
           in \<lparr>t_name = name prResult, devFPS = Num dev, prFPS = Num pr,
                diffPercent = Num d, regression = js_gt d perfChange,
                arrow = Some (if js_gt d (Fin 0) then ArrowDown else ArrowUp)\<rparr>))"

text \<open>
  The comparison loop (lines 112-135): \<open>i\<close> runs over the pages, of which there are as
  many as results once the loop is reached.
\<close>

definition compareAll :: "jsnum \<Rightarrow> payload list \<Rightarrow> payload option list \<Rightarrow> table_row list" where
  "compareAll perfChange prResults baseline =
     map (\<lambda>i. compareRow perfChange (prResults ! i) (baselineAt baseline i))
       [0..<length prResults]"

subsection \<open>The comment body\<close>

text \<open>
  The comment body is a template string; it is kept as the list of its pieces. A number
  formatted by \<open>toFixed(2)\<close> is the piece \<open>Fixed2\<close> of that number, and a number
  interpolated as it is the piece \<open>Shown\<close>: the decimal digits are not computed. The
  emoji of the templates are pieces of their own, and the Greek delta of a table header
  is spelled out.
\<close>

datatype piece =
  Lit string
  | Marker
  | Newline
  | WarningSign
  | CrossMark
  | CheckMark
  | Fixed2 jsnum
  | Shown jsnum
  | ArrowText "arrow option"

text \<open>
  \<open>v.toFixed(2)\<close>: a number formats; \<open>null\<close> and \<open>undefined\<close> have no properties and no
  other value has a \<open>toFixed\<close>, so the call throws a TypeError.
\<close>

fun toFixed2 :: "jsval \<Rightarrow> js_error + piece" where
  "toFixed2 (Num n) = Inr (Fixed2 n)"
| "toFixed2 Null = Inl (TypeError ''Cannot read properties of null (reading 'toFixed')'')"
| "toFixed2 Undefined = Inl (TypeError ''Cannot read properties of undefined (reading 'toFixed')'')"
| "toFixed2 (Bool b) = Inl (TypeError ''toFixed is not a function'')"
| "toFixed2 (Str s) = Inl (TypeError ''toFixed is not a function'')"
| "toFixed2 (Arr xs) = Inl (TypeError ''toFixed is not a function'')"
| "toFixed2 Obj = Inl (TypeError ''toFixed is not a function'')"

text \<open>One call of the \<open>forEach\<close> callback (lines 145-148): the text added to the body.\<close>

definition renderRow :: "table_row \<Rightarrow> js_error + piece list" where
  "renderRow r =
     andThen (if eq_null (devFPS r) then Inr WarningSign else toFixed2 (devFPS r))
       (\<lambda>devFPSFormatted.
     andThen (if eq_null (diffPercent r) then Inr [Lit ''-'']
              else andThen (toFixed2 (diffPercent r)) (\<lambda>p. Inr [p, Lit ''%'']))
       (\<lambda>diffPercentFormatted.
     andThen (toFixed2 (prFPS r))
       (\<lambda>prFPSFormatted.
          Inr ([Lit ''| '', Lit (t_name r), Lit '' | FPS | '', devFPSFormatted, Lit '' | '',
                prFPSFormatted, Lit '' | '', ArrowText (arrow r), Lit '' '']
               @ diffPercentFormatted @ [Lit '' |'', Newline, Newline]))))"

text \<open>
  The \<open>forEach\<close> over \<open>tableRows\<close> (lines 144-150), threading \<open>body\<close> and
  \<open>regressionDetected\<close>.
\<close>

fun renderRows :: "table_row list \<Rightarrow> piece list \<Rightarrow> bool \<Rightarrow> js_error + (piece list \<times> bool)" where
  "renderRows [] body regressionDetected = Inr (body, regressionDetected)"
| "renderRows (r # rs) body regressionDetected =
     andThen (renderRow r)
       (\<lambda>ps. renderRows rs (body @ ps) (if regression r then True else regressionDetected))"

definition tableHeader :: "piece list" where
  "tableHeader =
     [Newline, Marker, Newline, Lit ''### PixiJS Benchmark Results'', Newline,
      Lit ''| Name | Metric | dev | PR  | Change |'', Newline,
      Lit ''|:---|:-------|----:|----:|-------:|'', Newline]"

definition verdictLine :: "jsnum \<Rightarrow> bool \<Rightarrow> piece list" where
  "verdictLine perfChange regressionDetected =
     [Newline] @
     (if regressionDetected
      then [CrossMark, Lit '' **Performance regression detected (> '', Shown perfChange,
            Lit ''%)**'']
      else [CheckMark, Lit '' Performance within acceptable range''])
     @ [Newline]"

text \<open>Lines 138-157: the body and the verdict.\<close>

definition buildBody :: "jsnum \<Rightarrow> table_row list \<Rightarrow> js_error + (piece list \<times> bool)" where
  "buildBody perfChange tableRows =
     andThen (renderRows tableRows tableHeader False)
       (\<lambda>(body, regressionDetected).
          Inr (body @ verdictLine perfChange regressionDetected, regressionDetected))"


subsection \<open>The review-comment sink\<close>

text \<open>A comment of the pull request, as \<open>listComments\<close> returns it; its body may be missing.\<close>

record comment =
  comment_id :: nat
  comment_body :: "string option"

text \<open>
  The sink as the action meets it: whether \<open>GITHUB_TOKEN\<close> is set, the number of the pull
  request when the event has one, and what each of the three API calls does: the
  comments listed or the error thrown, and for an update or a creation the error thrown,
  if any.
\<close>

record sink =
  token :: bool
  pull_request :: "nat option"
  listComments :: "js_error + comment list"
  updateComment :: "js_error option"
  createComment :: "js_error option"

text \<open>What was written to the sink: the comment updated, or the issue commented on.\<close>

datatype sink_action = Updated nat "piece list" | Created nat "piece list"

definition MARKER :: string where
  "MARKER = ''<!-- PIXIJS_BENCHMARK_COMMENT -->''"

text \<open>\<open>s.includes(m)\<close>.\<close>

fun str_includes :: "string \<Rightarrow> string \<Rightarrow> bool" where
  "str_includes [] m = (m = [])"
| "str_includes (c # cs) m = (startsWith (c # cs) m \<or> str_includes cs m)"

text \<open>\<open>c.body?.includes(MARKER)\<close>, as a condition.\<close>

definition hasMarker :: "comment \<Rightarrow> bool" where
  "hasMarker c = (case comment_body c of None \<Rightarrow> False | Some b \<Rightarrow> str_includes b MARKER)"

text \<open>Lines 160-185: post the comment, or update the one that carries the marker.\<close>

definition postComment :: "sink \<Rightarrow> piece list \<Rightarrow> js_error + sink_action option" where
  "postComment s body =
     (if \<not> token s then Inr None
      else case pull_request s of
        None \<Rightarrow> Inr None
      | Some issueNumber \<Rightarrow>
          andThen (listComments s)
            (\<lambda>comments.
               case find hasMarker comments of
                 Some existing \<Rightarrow>
                   (case updateComment s of
                      Some e \<Rightarrow> Inl e
                    | None \<Rightarrow> Inr (Some (Updated (comment_id existing) body)))
               | None \<Rightarrow>
                   (case createComment s of
                      Some e \<Rightarrow> Inl e
                    | None \<Rightarrow> Inr (Some (Created issueNumber body)))))"

subsection \<open>The run\<close>

text \<open>
  What the browser does on one page: \<open>page.goto\<close> throws, or the wait for
  \<open>window.benchmarkResult\<close> throws (the 30 s timeout), or the payload is read back.
\<close>

datatype visit = GotoThrows js_error | WaitThrows js_error | Completed payload

text \<open>
  The inputs and the surroundings of one invocation: whether the dist path and
  \<open>pixi.mjs\<close> in it exist, the dist path as text, what happens on each benchmark page
  found, the baseline file (\<open>None\<close> when the input is empty or the file does not exist,
  otherwise the array parsed from it or the error \<open>JSON.parse\<close> throws),
  \<open>Number(core.getInput('perf-change'))\<close>, and the sink.
\<close>

record env =
  distPath :: string
  distPathExists :: bool
  pixiExists :: bool
  visits :: "visit list"
  baselineFile :: "(js_error + payload option list) option"
  perfChangeInput :: jsnum
  sinkEnv :: sink

text \<open>
  The observable state: the messages given to \<open>core.setFailed\<close> (latest first, each
  the pieces of its template; the invocation fails when there is one), whether the
  server listens, whether the browser runs, how many pages are open, the results written
  to the output file, the rows of the table, and what was written to the sink.
\<close>

record world =
  failed :: "piece list list"
  serverListening :: bool
  browserRunning :: bool
  openPages :: nat
  outputWritten :: "payload list option"
  tableRows :: "table_row list"
  posted :: "sink_action option"

definition initial :: world where
  "initial = \<lparr>failed = [], serverListening = False, browserRunning = False, openPages = 0,
              outputWritten = None, tableRows = [], posted = None\<rparr>"

definition setFailed :: "piece list \<Rightarrow> world \<Rightarrow> world" where
  "setFailed m w = w\<lparr>failed := m # failed w\<rparr>"

text \<open>
  The loop over the pages (lines 79-94). A page is opened, visited and closed; when the
  visit throws, the error leaves the loop at once, past \<open>page.close()\<close>.
\<close>

fun runPages :: "visit list \<Rightarrow> payload list \<Rightarrow> world \<Rightarrow> (js_error + payload list) \<times> world" where
  "runPages [] prResults w = (Inr prResults, w)"
| "runPages (v # vs) prResults w =
     (let w1 = w\<lparr>openPages := openPages w + 1\<rparr> in
      case v of
        GotoThrows e \<Rightarrow> (Inl e, w1)
      | WaitThrows e \<Rightarrow> (Inl e, w1)
      | Completed prResult \<Rightarrow>
          runPages vs (prResults @ [prResult]) (w1\<lparr>openPages := openPages w1 - 1\<rparr>))"

text \<open>Lines 101-191, after the benchmarks have run: compare, build the body, post, signal.\<close>

definition compareAndReport :: "env \<Rightarrow> payload list \<Rightarrow> world \<Rightarrow> (js_error + unit) \<times> world" where
  "compareAndReport e prResults w =
     (case (case baselineFile e of None \<Rightarrow> Inr [] | Some parsed \<Rightarrow> parsed) of
        Inl err \<Rightarrow> (Inl err, w)
      | Inr baseline \<Rightarrow>
          (let rows = compareAll (perfChangeInput e) prResults baseline;
               w1 = w\<lparr>tableRows := rows\<rparr>
           in case buildBody (perfChangeInput e) rows of
                Inl err \<Rightarrow> (Inl err, w1)
              | Inr (body, regressionDetected) \<Rightarrow>
                  (case postComment (sinkEnv e) body of
                     Inl err \<Rightarrow> (Inl err, w1)
                   | Inr act \<Rightarrow>
                       (Inr (),
                        (if regressionDetected
                         then setFailed [Lit ''Performance regression >'', Shown (perfChangeInput e),
                                         Lit ''% detected!'']
                         else id) (w1\<lparr>posted := act\<rparr>)))))"

text \<open>
  The \<open>try\<close> block of \<open>run\<close> (lines 30-191). The browser is a constant of the block; it is
  closed by line 95 only, after the loop.
\<close>

definition tryBlock :: "env \<Rightarrow> world \<Rightarrow> (js_error + unit) \<times> world" where
  "tryBlock e w =
     (if \<not> distPathExists e then (Inl (Error (''dist path not found: '' @ distPath e)), w)
      else if \<not> pixiExists e
      then (Inr (),
            setFailed [Lit (''pixi.mjs not found in dist path: '' @ distPath e @ ''/pixi.mjs'')] w)
      else
        (let w1 = w\<lparr>serverListening := True\<rparr>;
             w2 = w1\<lparr>browserRunning := True\<rparr>
         in case runPages (visits e) [] w2 of
              (Inl err, w3) \<Rightarrow> (Inl err, w3)
            | (Inr prResults, w3) \<Rightarrow>
                (let w4 = w3\<lparr>browserRunning := False, openPages := 0\<rparr>;
                     w5 = w4\<lparr>outputWritten := Some prResults\<rparr>
                 in compareAndReport e prResults w5)))"

text \<open>
  \<open>run\<close>: the \<open>try\<close> block, the \<open>catch\<close> clause, which reports the error's message as the
  failure, and the \<open>finally\<close> clause, which closes the server if there is one.
\<close>

definition run :: "env \<Rightarrow> world" where
  "run e =
     (let (r, w) = tryBlock e initial;
          w' = (case r of Inl err \<Rightarrow> setFailed [Lit (message err)] w | Inr u \<Rightarrow> w)
      in if serverListening w' then w'\<lparr>serverListening := False\<rparr> else w')"

text \<open>The invocation fails when \<open>core.setFailed\<close> was called.\<close>

definition invocationFailed :: "world \<Rightarrow> bool" where
  "invocationFailed w = (failed w \<noteq> [])"


section \<open>Averaged repeats against the dev build (src/unnamed/part_003, lines 873-1137)\<close>

definition REPEATS :: nat where
  "REPEATS = 3"

text \<open>What \<open>runIsolatedBenchmark\<close> returns.\<close>

record aggregated =
  avg :: jsnum
  stddev :: jsnum
  samples :: "jsval list"

text \<open>
  \<open>x ** 2\<close> on numbers, which the language leaves to the implementation to approximate:
  the product of \<open>x\<close> with itself, rounded.
\<close>

definition js_pow2 :: "jsnum \<Rightarrow> jsnum" where
  "js_pow2 a = js_mul a a"

text \<open>
  Lines 973-975: the two \<open>reduce\<close> calls over \<open>sampleFPS\<close>. The samples are the \<open>fps\<close>
  fields as read. The first \<open>reduce\<close> adds them with \<open>+\<close>, which concatenates once a sample
  is a string, and the division converts the result to a number; in the second the
  subtraction converts each sample.
\<close>

definition aggregate :: "jsval list \<Rightarrow> aggregated" where
  "aggregate sampleFPS =
     (let len = Fin (real (length sampleFPS));
          a = js_div (Number (foldl js_plus (Num (Fin 0)) sampleFPS)) len;
          sd = Math_sqrt
                 (js_div (foldl (\<lambda>s n. js_add s (js_pow2 (js_sub (Number n) a))) (Fin 0) sampleFPS)
                    len)
      in \<lparr>avg = a, stddev = sd, samples = sampleFPS\<rparr>)"

text \<open>
  \<open>runSingleBenchmark\<close> (lines 978-990): a page of the given browser is opened and
  visited, the \<open>fps\<close> read is pushed, and the page is closed; a throwing visit leaves the
  page to the caller.
\<close>

definition runSingleBenchmark :: "visit \<Rightarrow> jsval list \<Rightarrow> world \<Rightarrow> (js_error + jsval list) \<times> world" where
  "runSingleBenchmark v sampleFPS w =
     (let w1 = w\<lparr>openPages := openPages w + 1\<rparr> in
      case v of
        GotoThrows e \<Rightarrow> (Inl e, w1)
      | WaitThrows e \<Rightarrow> (Inl e, w1)
      | Completed result \<Rightarrow> (Inr (sampleFPS @ [fps result]), w1\<lparr>openPages := openPages w1 - 1\<rparr>))"

text \<open>
  The loop of \<open>runIsolatedBenchmark\<close> (lines 958-972) over the repeats still to do: a
  browser is launched for each, and the \<open>finally\<close> clause closes its contexts and the
  browser itself, with every page in it, whether the measurement threw or not. Closing
  is taken to succeed.
\<close>

fun repeatLoop :: "visit list \<Rightarrow> jsval list \<Rightarrow> world \<Rightarrow> (js_error + jsval list) \<times> world" where
  "repeatLoop [] sampleFPS w = (Inr sampleFPS, w)"
| "repeatLoop (v # vs) sampleFPS w =
     (let w1 = w\<lparr>browserRunning := True\<rparr>;
          (r, w2) = runSingleBenchmark v sampleFPS w1;
          w3 = w2\<lparr>browserRunning := False, openPages := 0\<rparr>
      in case r of
           Inl e \<Rightarrow> (Inl e, w3)
         | Inr sampleFPS' \<Rightarrow> repeatLoop vs sampleFPS' w3)"

text \<open>\<open>runIsolatedBenchmark\<close>; the argument says what the browser does at each repeat.\<close>

definition runIsolatedBenchmark :: "(nat \<Rightarrow> visit) \<Rightarrow> world \<Rightarrow> (js_error + aggregated) \<times> world" where
  "runIsolatedBenchmark visitAt w =
     (case repeatLoop (map visitAt [0..<REPEATS]) [] w of
        (Inl e, w') \<Rightarrow> (Inl e, w')
      | (Inr sampleFPS, w') \<Rightarrow> (Inr (aggregate sampleFPS), w'))"

text \<open>An entry of \<open>comparisons\<close>; \<open>c_name\<close>, \<open>c_diffPercent\<close>, \<open>c_regression\<close> and \<open>c_arrow\<close> are
  its \<open>name\<close>, \<open>diffPercent\<close>, \<open>regression\<close> and \<open>arrow\<close>.\<close>

record comparison =
  c_name :: string
  devResult :: aggregated
  localResult :: aggregated
  c_diffPercent :: jsnum
  c_regression :: bool
  c_arrow :: arrow

text \<open>Lines 1036-1053: the comparison of one benchmark, with the tolerance scaled to 60 fps.\<close>

definition allowedPercent :: "jsnum \<Rightarrow> jsnum \<Rightarrow> jsnum" where
  "allowedPercent perfChange devAvg =
     (let effectiveDevFps = Math_max devAvg (Fin 1)
      in js_mul perfChange (js_div (Fin 60) effectiveDevFps))"

definition compareScaled :: "jsnum \<Rightarrow> string \<Rightarrow> aggregated \<Rightarrow> aggregated \<Rightarrow> comparison" where
  "compareScaled perfChange nm devR localR =
     (let d = js_mul (js_div (js_sub (avg devR) (avg localR)) (avg devR)) (Fin 100)
      in \<lparr>c_name = nm, devResult = devR, localResult = localR, c_diffPercent = d,
           c_regression = js_gt d (allowedPercent perfChange (avg devR)),
           c_arrow = (if js_gt d (Fin 0) then ArrowDown else ArrowUp)\<rparr>)"

text \<open>
  The inputs and the surroundings of one invocation of this variant: for each benchmark
  directory found, its name and what the browser does at each repeat on its \<open>dev.html\<close>
  and on its \<open>local.html\<close>.
\<close>

record env_avg =
  a_distPath :: string
  a_distPathExists :: bool
  a_pixiExists :: bool
  benchmarks :: "(string \<times> (nat \<Rightarrow> visit) \<times> (nat \<Rightarrow> visit)) list"
  a_perfChangeInput :: jsnum
  a_sinkEnv :: sink

text \<open>
  The loop over the benchmarks (lines 1023-1060): the dev page is measured, then the local
  page, and the comparison is pushed.
\<close>

fun runBenchmarks :: "jsnum \<Rightarrow> (string \<times> (nat \<Rightarrow> visit) \<times> (nat \<Rightarrow> visit)) list \<Rightarrow>
    comparison list \<Rightarrow> world \<Rightarrow> (js_error + comparison list) \<times> world" where
  "runBenchmarks perfChange [] comparisons w = (Inr comparisons, w)"
| "runBenchmarks perfChange ((nm, devVisits, localVisits) # rest) comparisons w =
     (case runIsolatedBenchmark devVisits w of
        (Inl e, w1) \<Rightarrow> (Inl e, w1)
      | (Inr devR, w1) \<Rightarrow>
          (case runIsolatedBenchmark localVisits w1 of
             (Inl e, w2) \<Rightarrow> (Inl e, w2)
           | (Inr localR, w2) \<Rightarrow>
               runBenchmarks perfChange rest
                 (comparisons @ [compareScaled perfChange nm devR localR]) w2))"

text \<open>
  Lines 1073-1080: the rows of the body and \<open>regressionDetected\<close>. Every value formatted
  here is a number, the result of arithmetic.
\<close>

fun renderComparisons :: "comparison list \<Rightarrow> piece list \<Rightarrow> bool \<Rightarrow> piece list \<times> bool" where
  "renderComparisons [] body regressionDetected = (body, regressionDetected)"
| "renderComparisons (row # rows) body regressionDetected =
     renderComparisons rows
       (body @ [Lit ''| '', Lit (c_name row), Lit '' | '', Fixed2 (avg (devResult row)),
                Lit '' | '', Fixed2 (avg (localResult row)), Lit '' | '',
                Fixed2 (c_diffPercent row), Lit ''% | '', ArrowText (Some (c_arrow row)),
                Lit '' |'', Newline])
       (if c_regression row then True else regressionDetected)"

definition tableHeader_avg :: "piece list" where
  "tableHeader_avg =
     [Newline, Marker, Newline, Lit ''### PixiJS Benchmark Results (dev CDN vs local dist)'',
      Newline, Lit ''| Name | dev Avg FPS | local Avg FPS | delta% | Trend |'', Newline,
      Lit ''|:-----|-------------:|--------------:|----:|:------:|'', Newline]"

definition verdictLine_avg :: "jsnum \<Rightarrow> bool \<Rightarrow> piece list" where
  "verdictLine_avg perfChange regressionDetected =
     [Newline] @
     (if regressionDetected
      then [CrossMark, Lit '' Performance regression detected (> '', Shown perfChange,
            Lit ''% slower than dev)'']
      else [CheckMark, Lit '' Performance within acceptable range''])
     @ [Newline]"

text \<open>The \<open>try\<close> block of this variant's \<open>run\<close> (lines 997-1119).\<close>

definition tryBlock_avg :: "env_avg \<Rightarrow> world \<Rightarrow> (js_error + unit) \<times> world" where
  "tryBlock_avg e w =
     (if \<not> a_distPathExists e then (Inl (Error (''dist path not found: '' @ a_distPath e)), w)
      else if \<not> a_pixiExists e
      then (Inl (Error (''pixi.mjs not found in dist path: '' @ a_distPath e @ ''/pixi.mjs'')), w)
      else
        (let w1 = w\<lparr>serverListening := True\<rparr> in
         if benchmarks e = [] then (Inl (Error ''No index.mjs benchmark entrypoints found.''), w1)
         else
           (case runBenchmarks (a_perfChangeInput e) (benchmarks e) [] w1 of
              (Inl err, w2) \<Rightarrow> (Inl err, w2)
            | (Inr comparisons, w2) \<Rightarrow>
                (let (rows, regressionDetected) = renderComparisons comparisons tableHeader_avg False;
                     body = rows @ verdictLine_avg (a_perfChangeInput e) regressionDetected
                 in case postComment (a_sinkEnv e) body of
                      Inl err \<Rightarrow> (Inl err, w2)
                    | Inr act \<Rightarrow>
                        (Inr (),
                         (if regressionDetected
                          then setFailed [Lit ''Performance regression > '',
                                          Shown (a_perfChangeInput e), Lit ''% slower than dev.'']
                          else id) (w2\<lparr>posted := act\<rparr>))))))"

text \<open>
  This variant's \<open>run\<close>. Its \<open>browser\<close> variable is never assigned, so the \<open>finally\<close> clause
  has only the server to close.
\<close>

definition run_avg :: "env_avg \<Rightarrow> world" where
  "run_avg e =
     (let (r, w) = tryBlock_avg e initial;
          w' = (case r of Inl err \<Rightarrow> setFailed [Lit (message err)] w | Inr u \<Rightarrow> w)
      in if serverListening w' then w'\<lparr>serverListening := False\<rparr> else w')"

section \<open>Pages closed in a finally clause (src/unnamed/part_003, lines 27-216)\<close>

text \<open>
  The loop over the pages of this variant (lines 79-97): the visit is inside a \<open>try\<close>
  whose \<open>catch\<close> reports the failure and throws the error again, and whose \<open>finally\<close>
  closes the page.
\<close>

fun runPages_guarded :: "(string \<times> visit) list \<Rightarrow> payload list \<Rightarrow> world \<Rightarrow>
    (js_error + payload list) \<times> world" where
  "runPages_guarded [] prResults w = (Inr prResults, w)"
| "runPages_guarded ((pageUrl, v) # vs) prResults w =
     (let w1 = w\<lparr>openPages := openPages w + 1\<rparr>;
          caught = (\<lambda>e. (Inl e,
                      (setFailed [Lit ''Benchmark failed for '', Lit pageUrl, Lit '': '',
                                  Lit (message e)] w1)\<lparr>openPages := openPages w1 - 1\<rparr>))
      in case v of
           GotoThrows e \<Rightarrow> caught e
         | WaitThrows e \<Rightarrow> caught e
         | Completed prResult \<Rightarrow>
             runPages_guarded vs (prResults @ [prResult]) (w1\<lparr>openPages := openPages w1 - 1\<rparr>))"

text \<open>
  The \<open>finally\<close> clause of this variant's \<open>run\<close> (lines 196-215): the browser, assigned to
  a variable of the function, is closed with its contexts, then the server.
\<close>

definition teardown_guarded :: "world \<Rightarrow> world" where
  "teardown_guarded w =
     (let w1 = (if browserRunning w then w\<lparr>browserRunning := False, openPages := 0\<rparr> else w)
      in if serverListening w1 then w1\<lparr>serverListening := False\<rparr> else w1)"

section \<open>Dev and local results grouped by name (src/unnamed/part_003, lines 388-663)\<close>

datatype variant = Dev | Local

text \<open>An entry of \<open>rawResults\<close>: the payload read back, with the variant of its page.\<close>

record raw_result =
  r_name :: string
  r_fps :: jsval
  r_variant :: variant

text \<open>A value of the \<open>grouped\<close> map: the object with an optional \<open>dev\<close> and \<open>local\<close> field.\<close>

record vals =
  dev :: jsval
  local :: jsval

text \<open>
  The \<open>grouped\<close> map keeps its keys in the order of their first insertion; it is a list
  of keys and values without repeated keys. \<open>map_set\<close> is \<open>Map.prototype.set\<close>.
\<close>

fun map_set :: "string \<Rightarrow> vals \<Rightarrow> (string \<times> vals) list \<Rightarrow> (string \<times> vals) list" where
  "map_set k v [] = [(k, v)]"
| "map_set k v ((k', v') # rest) = (if k' = k then (k, v) # rest else (k', v') # map_set k v rest)"

text \<open>
  Lines 568-572: the results grouped by benchmark name. A name not yet in the map gets an
  empty object, and the field of the result's variant is assigned in the object of the
  name.
\<close>

fun groupResults :: "raw_result list \<Rightarrow> (string \<times> vals) list \<Rightarrow> (string \<times> vals) list" where
  "groupResults [] grouped = grouped"
| "groupResults (r # rs) grouped =
     (let old = (case map_of grouped (r_name r) of
                   None \<Rightarrow> \<lparr>dev = Undefined, local = Undefined\<rparr>
                 | Some v \<Rightarrow> v);
          new = (case r_variant r of
                   Dev \<Rightarrow> old\<lparr>dev := Num (Number (r_fps r))\<rparr>
                 | Local \<Rightarrow> old\<lparr>local := Num (Number (r_fps r))\<rparr>)
      in groupResults rs (map_set (r_name r) new grouped))"

text \<open>A row of this variant's \<open>tableRows\<close>; the fields are those of the code, prefixed.\<close>

record group_row =
  g_name :: string
  g_devFPS :: jsval
  g_localFPS :: jsval
  g_diffPercent :: jsval
  g_regression :: bool
  g_arrow :: "arrow option"

text \<open>The body of the loop over the groups (lines 578-588).\<close>

definition groupRow :: "jsnum \<Rightarrow> string \<times> vals \<Rightarrow> group_row" where
  "groupRow perfChange entry =
     (let nm = fst entry; devF = dev (snd entry); localF = local (snd entry)
      in if eq_null devF \<or> eq_null localF
         then \<lparr>g_name = nm, g_devFPS = devF, g_localFPS = localF, g_diffPercent = Null,
               g_regression = False, g_arrow = None\<rparr>
         else
           (let d = js_mul (js_div (js_sub (Number devF) (Number localF)) (Number devF)) (Fin 100)
            in \<lparr>g_name = nm, g_devFPS = devF, g_localFPS = localF, g_diffPercent = Num d,
                 g_regression = js_gt d perfChange,
                 g_arrow = Some (if js_gt d (Fin 0) then ArrowDown else ArrowUp)\<rparr>))"

text \<open>Lines 575-589: the rows, and \<open>regressionDetected\<close> after the loop.\<close>

definition groupRows :: "jsnum \<Rightarrow> raw_result list \<Rightarrow> group_row list" where
  "groupRows perfChange rawResults = map (groupRow perfChange) (groupResults rawResults [])"

fun regressionDetected_of :: "group_row list \<Rightarrow> bool \<Rightarrow> bool" where
  "regressionDetected_of [] regressionDetected = regressionDetected"
| "regressionDetected_of (r # rs) regressionDetected =
     regressionDetected_of rs (if g_regression r then True else regressionDetected)"

section \<open>Failure of the sink, and example invocations\<close>

text \<open>
  The error the interaction with the sink throws, if it throws. Whether it throws does
  not depend on the body posted, so the empty body serves to ask.
\<close>

definition sinkThrows :: "sink \<Rightarrow> js_error option" where
  "sinkThrows s = (case postComment s [] of Inl e \<Rightarrow> Some e | Inr act \<Rightarrow> None)"

text \<open>
  Invocations of \<open>run\<close> of src/unnamed/part_004 on one benchmark page, with a threshold of
  5 percent: \<open>env_steady\<close> measures the 60 FPS of its baseline file and posts a new
  comment on pull request 7; \<open>env_sink_down\<close> is the same invocation with the listing of
  the comments refused; in \<open>env_timeout\<close> the wait for the result times out.
\<close>

definition env_steady :: env where
  "env_steady =
     \<lparr>distPath = ''dist'', distPathExists = True, pixiExists = True,
      visits = [Completed \<lparr>name = ''Sprites (50k)'', fps = Num (Fin 60)\<rparr>],
      baselineFile = Some (Inr [Some \<lparr>name = ''Sprites (50k)'', fps = Num (Fin 60)\<rparr>]),
      perfChangeInput = Fin 5,
      sinkEnv = \<lparr>token = True, pull_request = Some 7, listComments = Inr [],
                 updateComment = None, createComment = None\<rparr>\<rparr>"

definition env_sink_down :: env where
  "env_sink_down =
     env_steady\<lparr>sinkEnv := \<lparr>token = True, pull_request = Some 7,
                             listComments = Inl (Error ''Bad credentials''),
                             updateComment = None, createComment = None\<rparr>\<rparr>"

definition env_timeout :: env where
  "env_timeout =
     env_steady\<lparr>visits := [WaitThrows (Error ''page.waitForFunction: Timeout 30000ms exceeded.'')]\<rparr>"

text \<open>
  An invocation of the variant with averaged repeats on one benchmark directory, both of
  whose pages report 60 FPS at every repeat, with a threshold of 5 percent; the listing
  of the comments is refused.
\<close>

definition env_avg_sink_down :: env_avg where
  "env_avg_sink_down =
     \<lparr>a_distPath = ''dist'', a_distPathExists = True, a_pixiExists = True,
      benchmarks = [(''sprite'',
                     (\<lambda>i. Completed \<lparr>name = ''Sprites (50k)'', fps = Num (Fin 60)\<rparr>),
                     (\<lambda>i. Completed \<lparr>name = ''Sprites (50k)'', fps = Num (Fin 60)\<rparr>))],
      a_perfChangeInput = Fin 5,
      a_sinkEnv = \<lparr>token = True, pull_request = Some 7,
                   listComments = Inl (Error ''Bad credentials''),
                   updateComment = None, createComment = None\<rparr>\<rparr>"

section \<open>The specification's average\<close>


section \<open>Rounding to binary64\<close>





lemma rhe_of_int: "round_half_even (of_int n) = n"
  by (simp add: round_half_even_def)

lemma rhe_mono: "s \<le> t \<Longrightarrow> round_half_even s \<le> round_half_even t"
proof -
  assume st: "s \<le> t"
  have lo: "\<lfloor>x\<rfloor> \<le> round_half_even x" for x :: real
    by (simp add: round_half_even_def Let_def)
  have hi: "round_half_even x \<le> \<lfloor>x\<rfloor> + 1" for x :: real
    by (simp add: round_half_even_def Let_def)
  have fl: "\<lfloor>s\<rfloor> \<le> \<lfloor>t\<rfloor>" using st by (rule floor_mono)
  show ?thesis
  proof (cases "\<lfloor>s\<rfloor> = \<lfloor>t\<rfloor>")
    case True
    then show ?thesis using st by (auto simp: round_half_even_def Let_def)
  next
    case False
    then have "\<lfloor>s\<rfloor> + 1 \<le> \<lfloor>t\<rfloor>" using fl by simp
    then show ?thesis using lo[of t] hi[of s] by linarith
  qed
qed


lemma rhe_nonneg: "0 \<le> t \<Longrightarrow> 0 \<le> round_half_even t"
  using rhe_mono[of 0 t] rhe_of_int[of 0] by simp



lemma round_mag_sign: "0 < y \<Longrightarrow> round_mag y = PInf \<or> (\<exists>r. round_mag y = Fin r \<and> 0 \<le> r)"
proof -
  assume y: "0 < y"
  let ?e = "max (- 1074) (ilog2 y - 52)"
  have "0 \<le> y / 2 powi ?e" using y by simp
  then have "0 \<le> round_half_even (y / 2 powi ?e)" by (rule rhe_nonneg)
  then have "0 \<le> real_of_int (round_half_even (y / 2 powi ?e)) * 2 powi ?e" by simp
  then show ?thesis by (simp add: round_mag_def Let_def)
qed



lemma round64_not_negative: "0 \<le> y \<Longrightarrow> not_negative (round64 y)"
  using round_mag_sign[of y] by (auto simp: round64_def)

lemma round64_not_positive: "y \<le> 0 \<Longrightarrow> not_positive (round64 y)"
  using round_mag_sign[of "- y"] by (auto simp: round64_def)

lemma js_gt_Fin: "js_gt (Fin a) (Fin b) = (a > b)"
  by (simp add: js_gt_def)

lemma js_add_Fin: "js_add (Fin a) (Fin b) = round64 (a + b)"
  by (simp add: js_add_def isInf_def)

lemma js_sub_Fin: "js_sub (Fin a) (Fin b) = round64 (a - b)"
  by (simp add: js_sub_def js_add_def isInf_def)

lemma js_mul_Fin:
  "js_mul (Fin a) (Fin b) =
     (if a = 0 \<or> b = 0 then signed_zero ((a < 0) \<noteq> (b < 0)) else round64 (a * b))"
  by (simp add: js_mul_def isInf_def isZero_def)

lemma js_div_Fin:
  "b \<noteq> 0 \<Longrightarrow>
     js_div (Fin a) (Fin b) =
       (if a = 0 then signed_zero ((a < 0) \<noteq> (b < 0)) else round64 (a / b))"
  by (simp add: js_div_def isInf_def isZero_def)

lemma not_negative_gt: "not_negative a \<Longrightarrow> a \<noteq> NaN \<and> \<not> js_lt a (Fin 0)"
  by (cases a) (simp_all add: js_lt_def js_gt_def)

lemma not_positive_gt: "not_positive a \<Longrightarrow> a \<noteq> NaN \<and> \<not> js_gt a (Fin 0)"
  by (cases a) (simp_all add: js_gt_def)

lemma js_sub_not_negative: "c \<le> b \<Longrightarrow> not_negative (js_sub (Fin b) (Fin c))"
  by (simp add: js_sub_Fin round64_not_negative)

lemma js_sub_not_positive: "b \<le> c \<Longrightarrow> not_positive (js_sub (Fin b) (Fin c))"
  by (simp add: js_sub_Fin round64_not_positive)

lemma js_div_not_negative: "not_negative a \<Longrightarrow> 0 < b \<Longrightarrow> not_negative (js_div a (Fin b))"
  by (cases a)
    (simp_all add: js_div_def isInf_def isZero_def signed_inf_def signed_zero_def
      round64_not_negative)

lemma js_div_not_positive: "not_positive a \<Longrightarrow> 0 < b \<Longrightarrow> not_positive (js_div a (Fin b))"
  by (cases a)
    (simp_all add: js_div_def isInf_def isZero_def signed_inf_def signed_zero_def
      round64_not_positive divide_le_0_iff)

lemma js_mul_not_negative: "not_negative a \<Longrightarrow> 0 < b \<Longrightarrow> not_negative (js_mul a (Fin b))"
  by (cases a)
    (simp_all add: js_mul_def isInf_def isZero_def signed_inf_def signed_zero_def
      round64_not_negative)

lemma js_mul_not_positive: "not_positive a \<Longrightarrow> 0 < b \<Longrightarrow> not_positive (js_mul a (Fin b))"
  by (cases a)
    (simp_all add: js_mul_def isInf_def isZero_def signed_inf_def signed_zero_def
      round64_not_positive mult_le_0_iff)

text \<open>The sign of the percent difference, for a positive baseline.\<close>

lemma diff_sign:
  assumes "0 < b"
  shows "(c \<le> b \<longrightarrow> not_negative (js_mul (js_div (js_sub (Fin b) (Fin c)) (Fin b)) (Fin 100))) \<and>
         (b \<le> c \<longrightarrow> not_positive (js_mul (js_div (js_sub (Fin b) (Fin c)) (Fin b)) (Fin 100)))"
  using assms
  by (simp add: js_sub_not_negative js_sub_not_positive js_div_not_negative js_div_not_positive
      js_mul_not_negative js_mul_not_positive)

lemma diff_positive_slower:
  assumes "0 < b"
  shows "js_mul (js_div (js_sub (Fin b) (Fin c)) (Fin b)) (Fin 100) \<noteq> NaN \<and>
         (js_gt (js_mul (js_div (js_sub (Fin b) (Fin c)) (Fin b)) (Fin 100)) (Fin 0) \<longrightarrow> c < b) \<and>
         (js_lt (js_mul (js_div (js_sub (Fin b) (Fin c)) (Fin b)) (Fin 100)) (Fin 0) \<longrightarrow> b < c)"
proof (cases "c \<le> b")
  case True
  then have nn: "not_negative (js_mul (js_div (js_sub (Fin b) (Fin c)) (Fin b)) (Fin 100))"
    using diff_sign[OF assms, of c] by simp
  show ?thesis
  proof (cases "c = b")
    case True
    then have "not_positive (js_mul (js_div (js_sub (Fin b) (Fin c)) (Fin b)) (Fin 100))"
      using diff_sign[OF assms, of c] by simp
    then show ?thesis using not_positive_gt not_negative_gt[OF nn] True by auto
  next
    case False
    then show ?thesis using not_negative_gt[OF nn] \<open>c \<le> b\<close> by auto
  qed
next
  case False
  then have "not_positive (js_mul (js_div (js_sub (Fin b) (Fin c)) (Fin b)) (Fin 100))"
    using diff_sign[OF assms, of c] by simp
  then show ?thesis using not_positive_gt False by auto
qed

lemma Math_max_Fin: "Math_max (Fin a) (Fin b) = Fin (max a b)"
  by (simp add: Math_max_def js_gt_Fin max_def)











section \<open>The error of rounding, and of a sum\<close>








section \<open>Evaluation on numerals\<close>

text \<open>Rules by which the simplifier computes the operations on given numbers.\<close>

lemma bitlen_numeral: "bitlen (numeral n) = bitlen (numeral n div 2) + 1"
  by (subst compute_bitlen) simp

lemma bitlen_one: "bitlen 1 = 1"
  by (subst compute_bitlen) simp



lemmas r64 = round64_def round_mag_def ilog2_def round_half_even_def Let_def
  bitlen_numeral bitlen_one

lemmas js_eval = js_add_Fin js_sub_Fin js_mul_Fin js_div_Fin js_gt_Fin signed_zero_def r64


lemmas str_eval = StringToNumber_def trim_def whiteSpace_def decimal_literal_def exponent_part_def
  integer_literal_def digits_value_def is_digit_def digit_value_def

section \<open>The aggregate of numbers\<close>





text \<open>
  Samples that are strings are concatenated by the first \<open>reduce\<close>, starting from the
  number 0: three samples \<open>"60"\<close> make the string \<open>"0606060"\<close>, and the average is 202020.
\<close>

lemma aggregate_string_samples:
  "foldl js_plus (Num (Fin 0)) [Str ''60'', Str ''60'', Str ''60''] = Str ''0606060'' \<and>
   avg (aggregate [Str ''60'', Str ''60'', Str ''60'']) = Fin 202020"
  by (simp add: aggregate_def js_plus_def js_div_Fin str_eval r64)

section \<open>Rendering and running\<close>

lemma renderRow_compareRow: "\<exists>ps. renderRow (compareRow t p b) = Inr ps"
  by (cases b) (simp_all add: renderRow_def compareRow_def andThen_def Let_def)

lemma renderRows_ok:
  "\<forall>r\<in>set rows. \<exists>ps. renderRow r = Inr ps \<Longrightarrow>
     \<exists>body'. renderRows rows body acc = Inr (body', acc \<or> (\<exists>r\<in>set rows. regression r))"
proof (induction rows arbitrary: body acc)
  case Nil
  then show ?case by simp
next
  case (Cons r rows)
  then obtain ps where ps: "renderRow r = Inr ps" by auto
  from Cons.prems have "\<forall>r\<in>set rows. \<exists>ps. renderRow r = Inr ps" by simp
  from Cons.IH[OF this, of "body @ ps" "if regression r then True else acc"]
  show ?case using ps by (auto simp: andThen_def)
qed

lemma buildBody_compareAll:
  "\<exists>body. buildBody t (compareAll t prs bl) =
     Inr (body, \<exists>r\<in>set (compareAll t prs bl). regression r)"
proof -
  have "\<forall>r\<in>set (compareAll t prs bl). \<exists>ps. renderRow r = Inr ps"
    by (auto simp: compareAll_def renderRow_compareRow)
  from renderRows_ok[OF this, of tableHeader False]
  show ?thesis by (auto simp: buildBody_def andThen_def)
qed

lemma runPages_completed: "runPages (map Completed prs) acc w = (Inr (acc @ prs), w)"
  by (induction prs arbitrary: acc) (simp_all add: Let_def)

lemma postComment_throws_any_body:
  "(postComment s body = Inl err) = (postComment s body' = Inl err)"
  by (simp add: postComment_def andThen_def split: option.splits sum.splits)

lemma sinkThrows_Some: "sinkThrows s = Some err \<Longrightarrow> postComment s body = Inl err"
  using postComment_throws_any_body[of s body err "[]"]
  by (simp add: sinkThrows_def split: sum.splits)

lemma sinkThrows_None: "sinkThrows s = None \<Longrightarrow> \<exists>act. postComment s body = Inr act"
proof (cases "postComment s body")
  case (Inl err)
  then have "postComment s [] = Inl err"
    using postComment_throws_any_body[of s body err "[]"] by simp
  moreover assume "sinkThrows s = None"
  ultimately show ?thesis by (simp add: sinkThrows_def)
next
  case (Inr act)
  then show ?thesis by simp
qed

text \<open>The failure messages of a run whose benchmarks complete and whose baseline parses.\<close>

lemma failed_run:
  assumes "distPathExists e" "pixiExists e" "visits e = map Completed prResults"
    and "(case baselineFile e of None \<Rightarrow> Inr [] | Some parsed \<Rightarrow> parsed) = Inr baseline"
  shows "failed (run e) =
     (case sinkThrows (sinkEnv e) of
        Some err \<Rightarrow> [[Lit (message err)]]
      | None \<Rightarrow>
          if \<exists>r\<in>set (compareAll (perfChangeInput e) prResults baseline). regression r
          then [[Lit ''Performance regression >'', Shown (perfChangeInput e), Lit ''% detected!'']]
          else [])"
proof -
  obtain body where body: "buildBody (perfChangeInput e) (compareAll (perfChangeInput e) prResults baseline) =
     Inr (body, \<exists>r\<in>set (compareAll (perfChangeInput e) prResults baseline). regression r)"
    using buildBody_compareAll by blast
  show ?thesis
  proof (cases "sinkThrows (sinkEnv e)")
    case None
    then obtain act where "postComment (sinkEnv e) body = Inr act"
      using sinkThrows_None by blast
    then show ?thesis using assms body None
      by (simp add: run_def tryBlock_def compareAndReport_def runPages_completed Let_def
          initial_def setFailed_def)
  next
    case (Some err)
    then have "postComment (sinkEnv e) body = Inl err"
      by (rule sinkThrows_Some)
    then show ?thesis using assms body Some
      by (simp add: run_def tryBlock_def compareAndReport_def runPages_completed Let_def
          initial_def setFailed_def)
  qed
qed

section \<open>Comparisons with NaN and self-comparison\<close>

lemma js_gt_NaN: "js_gt d NaN = False" "js_gt NaN d = False"
  by (simp_all add: js_gt_def)

lemma js_mul_NaN: "js_mul NaN a = NaN" "js_mul a NaN = NaN"
  by (simp_all add: js_mul_def)

lemma js_div_NaN: "js_div NaN a = NaN" "js_div a NaN = NaN"
  by (simp_all add: js_div_def)

lemma js_sub_NaN: "js_sub NaN a = NaN" "js_sub a NaN = NaN"
  by (cases a; simp add: js_sub_def js_add_def)+

lemmas js_NaN = js_gt_NaN js_mul_NaN js_div_NaN js_sub_NaN

text \<open>The percent difference of a number with itself is a zero or NaN.\<close>

lemma self_sub: "js_sub x x = (case x of Fin v \<Rightarrow> Fin 0 | NZero \<Rightarrow> Fin 0 | _ \<Rightarrow> NaN)"
  by (cases x) (simp_all add: js_sub_def js_add_def isInf_def round64_def)

lemma self_diff:
  "js_mul (js_div (js_sub x x) x) (Fin 100) =
     (case x of Fin v \<Rightarrow> if v = 0 then NaN else if v < 0 then NZero else Fin 0 | _ \<Rightarrow> NaN)"
  by (cases x)
    (simp_all add: self_sub js_div_def js_mul_def isInf_def isZero_def signed_zero_def)

lemma js_gt_zero: "\<not> js_gt (Fin 0) t \<Longrightarrow> \<not> js_gt NZero t"
  by (simp add: js_gt_def split: if_splits)

lemma self_not_regressed:
  assumes "\<not> js_lt t (Fin 0)"
  shows "\<not> regression (compareRow t p (Some p))"
proof -
  from assms have z: "\<not> js_gt (Fin 0) t" by (simp add: js_lt_def)
  then have "\<not> js_gt (js_mul (js_div (js_sub x x) x) (Fin 100)) t" for x
    using js_gt_zero[OF z] by (cases x) (simp_all add: self_diff js_gt_NaN)
  then show ?thesis by (simp add: compareRow_def Let_def)
qed

lemma baselineAt_map_Some: "i < length prs \<Longrightarrow> baselineAt (map Some prs) i = Some (prs ! i)"
  by (simp add: baselineAt_def)

lemma compareAll_self:
  "compareAll t prs (map Some prs) = map (\<lambda>p. compareRow t p (Some p)) prs"
  by (rule nth_equalityI) (simp_all add: compareAll_def baselineAt_map_Some)

section \<open>The run with averaged repeats\<close>

lemma runSingleBenchmark_keeps:
  "failed (snd (runSingleBenchmark v s w)) = failed w \<and>
   serverListening (snd (runSingleBenchmark v s w)) = serverListening w"
  by (cases v) (simp_all add: runSingleBenchmark_def Let_def)

lemma repeatLoop_keeps:
  "failed (snd (repeatLoop vs s w)) = failed w \<and>
   serverListening (snd (repeatLoop vs s w)) = serverListening w"
proof (induction vs arbitrary: s w)
  case Nil
  then show ?case by simp
next
  case (Cons v vs)
  obtain r w2 where single: "runSingleBenchmark v s (w\<lparr>browserRunning := True\<rparr>) = (r, w2)"
    by (cases "runSingleBenchmark v s (w\<lparr>browserRunning := True\<rparr>)") auto
  have keep: "failed w2 = failed w \<and> serverListening w2 = serverListening w"
    using runSingleBenchmark_keeps[of v s "w\<lparr>browserRunning := True\<rparr>"] single by simp
  show ?case
  proof (cases r)
    case (Inl e)
    then show ?thesis using single keep by (simp add: Let_def)
  next
    case (Inr s')
    then show ?thesis
      using single keep Cons.IH[of s' "w2\<lparr>browserRunning := False, openPages := 0\<rparr>"]
      by (simp add: Let_def)
  qed
qed

lemma runIsolatedBenchmark_keeps:
  "failed (snd (runIsolatedBenchmark visitAt w)) = failed w \<and>
   serverListening (snd (runIsolatedBenchmark visitAt w)) = serverListening w"
  using repeatLoop_keeps[of "map visitAt [0..<REPEATS]" "[]" w]
  by (auto simp: runIsolatedBenchmark_def split: prod.splits sum.splits)

lemma runBenchmarks_keeps:
  "failed (snd (runBenchmarks t bs cs w)) = failed w \<and>
   serverListening (snd (runBenchmarks t bs cs w)) = serverListening w"
proof (induction t bs cs w rule: runBenchmarks.induct)
  case (1 perfChange comparisons w)
  then show ?case by simp
next
  case (2 perfChange nm devVisits localVisits rest comparisons w)
  show ?case
  proof (cases "runIsolatedBenchmark devVisits w")
    case (Pair r1 w1)
    note first = this
    have k1: "failed w1 = failed w \<and> serverListening w1 = serverListening w"
      using runIsolatedBenchmark_keeps[of devVisits w] first by simp
    show ?thesis
    proof (cases r1)
      case (Inl e)
      then show ?thesis using first k1 by simp
    next
      case (Inr devR)
      note dev = this
      show ?thesis
      proof (cases "runIsolatedBenchmark localVisits w1")
        case (Pair r2 w2)
        note second = this
        have k2: "failed w2 = failed w1 \<and> serverListening w2 = serverListening w1"
          using runIsolatedBenchmark_keeps[of localVisits w1] second by simp
        show ?thesis
        proof (cases r2)
          case (Inl e)
          then show ?thesis using first dev second k1 k2 by simp
        next
          case (Inr localR)
          then show ?thesis
            using first dev second k1 k2 "2.IH"[OF first[symmetric] dev second[symmetric]]
            by simp
        qed
      qed
    qed
  qed
qed

lemma renderComparisons_verdict:
  "snd (renderComparisons cs body acc) = (acc \<or> (\<exists>c\<in>set cs. c_regression c))"
  by (induction cs arbitrary: body acc) auto

text \<open>The failure messages of a run with averaged repeats whose benchmarks complete.\<close>

lemma failed_run_avg:
  assumes "a_distPathExists e" "a_pixiExists e" "benchmarks e \<noteq> []"
    and "fst (runBenchmarks (a_perfChangeInput e) (benchmarks e) []
               (initial\<lparr>serverListening := True\<rparr>)) = Inr comparisons"
  shows "failed (run_avg e) =
     (case sinkThrows (a_sinkEnv e) of
        Some err \<Rightarrow> [[Lit (message err)]]
      | None \<Rightarrow>
          if \<exists>c\<in>set comparisons. c_regression c
          then [[Lit ''Performance regression > '', Shown (a_perfChangeInput e),
                 Lit ''% slower than dev.'']]
          else [])"
proof -
  let ?w1 = "initial\<lparr>serverListening := True\<rparr>"
  obtain w2 where rb: "runBenchmarks (a_perfChangeInput e) (benchmarks e) [] ?w1 = (Inr comparisons, w2)"
    using assms(4) by (cases "runBenchmarks (a_perfChangeInput e) (benchmarks e) [] ?w1") auto
  have k: "failed w2 = [] \<and> serverListening w2"
    using runBenchmarks_keeps[of "a_perfChangeInput e" "benchmarks e" "[]" ?w1] rb
    by (simp add: initial_def)
  obtain rows verdict where rc: "renderComparisons comparisons tableHeader_avg False = (rows, verdict)"
    by (cases "renderComparisons comparisons tableHeader_avg False") auto
  have v: "verdict = (\<exists>c\<in>set comparisons. c_regression c)"
    using renderComparisons_verdict[of comparisons tableHeader_avg False] rc by simp
  let ?body = "rows @ verdictLine_avg (a_perfChangeInput e) verdict"
  show ?thesis
  proof (cases "sinkThrows (a_sinkEnv e)")
    case None
    then obtain act where "postComment (a_sinkEnv e) ?body = Inr act"
      using sinkThrows_None by blast
    then show ?thesis using assms(1-3) rb rc k v None
      by (simp add: run_avg_def tryBlock_avg_def Let_def setFailed_def)
  next
    case (Some err)
    then have "postComment (a_sinkEnv e) ?body = Inl err"
      by (rule sinkThrows_Some)
    then show ?thesis using assms(1-3) rb rc k Some
      by (simp add: run_avg_def tryBlock_avg_def Let_def setFailed_def)
  qed
qed

lemma upt_REPEATS: "[0..<REPEATS] = [0, 1, 2]"
  by (simp add: REPEATS_def upt_rec)

section \<open>Pages open after the loop over the pages\<close>

text \<open>Without the \<open>finally\<close> clause, a visit that throws leaves its page open.\<close>

lemma runPages_throw_leaves_page:
  "fst (runPages vs acc w) = Inl err \<Longrightarrow> openPages (snd (runPages vs acc w)) = openPages w + 1"
proof (induction vs arbitrary: acc w)
  case Nil
  then show ?case by simp
next
  case (Cons v vs)
  show ?case
  proof (cases v)
    case (Completed p)
    from Cons.prems Completed have "fst (runPages vs (acc @ [p]) w) = Inl err"
      by (simp add: Let_def)
    from Cons.IH[OF this] show ?thesis using Completed
      by (simp add: Let_def)
  qed (simp_all add: Let_def)
qed

text \<open>With it, the loop leaves as many pages open as it found, whether it throws or not.\<close>

lemma runPages_guarded_closes_pages:
  "openPages (snd (runPages_guarded vs acc w)) = openPages w"
proof (induction vs arbitrary: acc w)
  case Nil
  then show ?case by simp
next
  case (Cons uv vs)
  obtain pageUrl v where uv: "uv = (pageUrl, v)" by (cases uv)
  show ?case
  proof (cases v)
    case (Completed p)
    then show ?thesis using uv Cons.IH[of "acc @ [p]" w]
      by (simp add: Let_def)
  qed (simp_all add: uv Let_def setFailed_def)
qed

lemma teardown_guarded_disposes:
  "\<not> browserRunning (teardown_guarded w) \<and> \<not> serverListening (teardown_guarded w) \<and>
   (browserRunning w \<longrightarrow> openPages (teardown_guarded w) = 0)"
  by (simp add: teardown_guarded_def Let_def)

section \<open>The grouped map\<close>

lemma map_of_map_set: "map_of (map_set k v al) = (map_of al)(k \<mapsto> v)"
  by (induction al) auto

lemma keys_map_set: "set (map fst (map_set k v al)) = insert k (set (map fst al))"
  by (induction al) force+

lemma distinct_map_set: "distinct (map fst al) \<Longrightarrow> distinct (map fst (map_set k v al))"
proof (induction al)
  case Nil
  then show ?case by simp
next
  case (Cons a al)
  then show ?case using keys_map_set[of k v al] by (cases a) (auto simp del: set_map)
qed

lemma distinct_groupResults:
  "distinct (map fst g) \<Longrightarrow> distinct (map fst (groupResults rs g))"
  by (induction rs arbitrary: g) (simp_all add: Let_def distinct_map_set)

text \<open>
  A field of a group is \<open>undefined\<close> exactly when it was so at the start and no result of
  that name and variant came.
\<close>

lemma groupResults_fields:
  "map_of (groupResults rs g) nm = Some v \<Longrightarrow>
     (eq_null (dev v) =
        ((case map_of g nm of None \<Rightarrow> True | Some v0 \<Rightarrow> eq_null (dev v0)) \<and>
         \<not> (\<exists>r\<in>set rs. r_name r = nm \<and> r_variant r = Dev))) \<and>
     (eq_null (local v) =
        ((case map_of g nm of None \<Rightarrow> True | Some v0 \<Rightarrow> eq_null (local v0)) \<and>
         \<not> (\<exists>r\<in>set rs. r_name r = nm \<and> r_variant r = Local)))"
proof (induction rs arbitrary: g)
  case Nil
  then show ?case by simp
next
  case (Cons r rs)
  let ?old = "case map_of g (r_name r) of
                None \<Rightarrow> \<lparr>dev = Undefined, local = Undefined\<rparr> | Some v \<Rightarrow> v"
  let ?new = "case r_variant r of
                Dev \<Rightarrow> ?old\<lparr>dev := Num (Number (r_fps r))\<rparr>
              | Local \<Rightarrow> ?old\<lparr>local := Num (Number (r_fps r))\<rparr>"
  let ?g = "map_set (r_name r) ?new g"
  from Cons.prems have "map_of (groupResults rs ?g) nm = Some v"
    by (simp add: Let_def)
  from Cons.IH[OF this] show ?case
    by (cases "r_variant r"; cases "map_of g (r_name r)")
      (auto simp: map_of_map_set split: option.splits if_splits)
qed

lemma regressionDetected_of_eq:
  "regressionDetected_of rows acc = (acc \<or> (\<exists>r\<in>set rows. g_regression r))"
  by (induction rows arbitrary: acc) auto

lemma compareAll_nth:
  "i < length prs \<Longrightarrow> compareAll t prs bl ! i = compareRow t (prs ! i) (baselineAt bl i)"
  by (simp add: compareAll_def)

text \<open>Every comparison the loop over the benchmarks adds is made by \<open>compareScaled\<close>.\<close>

lemma runBenchmarks_comparisons:
  "fst (runBenchmarks t bs cs w) = Inr cs' \<Longrightarrow>
     \<forall>c\<in>set cs'. c \<in> set cs \<or> (\<exists>nm d l. c = compareScaled t nm d l)"
proof (induction t bs cs w rule: runBenchmarks.induct)
  case (1 perfChange comparisons w)
  then show ?case by simp
next
  case (2 perfChange nm devVisits localVisits rest comparisons w)
  obtain r1 w1 where first: "runIsolatedBenchmark devVisits w = (r1, w1)"
    by (cases "runIsolatedBenchmark devVisits w") auto
  show ?case
  proof (cases r1)
    case (Inl e)
    then show ?thesis using "2.prems" first by simp
  next
    case (Inr devR)
    note dev = this
    obtain r2 w2 where second: "runIsolatedBenchmark localVisits w1 = (r2, w2)"
      by (cases "runIsolatedBenchmark localVisits w1") auto
    show ?thesis
    proof (cases r2)
      case (Inl e)
      then show ?thesis using "2.prems" first dev second by simp
    next
      case (Inr localR)
      have "fst (runBenchmarks perfChange rest
                  (comparisons @ [compareScaled perfChange nm devR localR]) w2) = Inr cs'"
        using "2.prems" first dev second Inr by simp
      from "2.IH"[OF first[symmetric] dev second[symmetric] Inr this]
      show ?thesis by auto
    qed
  qed
qed

lemma run_avg_nan_threshold:
  assumes "a_distPathExists a" "a_pixiExists a" "benchmarks a \<noteq> []"
    and "fst (runBenchmarks (a_perfChangeInput a) (benchmarks a) []
               (initial\<lparr>serverListening := True\<rparr>)) = Inr comparisons"
    and "sinkThrows (a_sinkEnv a) = None" "a_perfChangeInput a = NaN"
  shows "failed (run_avg a) = []"
proof -
  have "\<not> c_regression (compareScaled NaN nm d l)" for nm d l
    by (simp add: compareScaled_def allowedPercent_def Let_def js_NaN)
  then have "\<not> (\<exists>c\<in>set comparisons. c_regression c)"
    using runBenchmarks_comparisons[OF assms(4)] assms(6) by auto
  then show ?thesis
    using failed_run_avg[OF assms(1-4)] assms(5) by simp
qed

section \<open>The claims\<close>

text \<open>
  C1 (counterexample). Two scenarios are present in the candidate results and in the
  baseline file, each with the same FPS on both sides, but the baseline file lists them in
  the other order. The comparison against the baseline file takes the baseline entry at
  the position of the candidate result and never reads its name: the rows show \<open>-100\<close> and
  \<open>50\<close> where the difference of each scenario with its own baseline is 0, and the second
  is marked as regressed.
\<close>

theorem C1_pairing_by_position_counterexample:
  "compareAll (Fin 5)
     [\<lparr>name = ''sprites'', fps = Num (Fin 60)\<rparr>, \<lparr>name = ''text'', fps = Num (Fin 30)\<rparr>]
     [Some \<lparr>name = ''text'', fps = Num (Fin 30)\<rparr>, Some \<lparr>name = ''sprites'', fps = Num (Fin 60)\<rparr>] =
     [\<lparr>t_name = ''sprites'', devFPS = Num (Fin 30), prFPS = Num (Fin 60),
       diffPercent = Num (Fin (- 100)), regression = False, arrow = Some ArrowUp\<rparr>,
      \<lparr>t_name = ''text'', devFPS = Num (Fin 60), prFPS = Num (Fin 30),
       diffPercent = Num (Fin 50), regression = True, arrow = Some ArrowDown\<rparr>]"
  by (simp add: compareAll_def baselineAt_def compareRow_def upt_rec js_eval)

text \<open>
  C1 (amended). Against the baseline file, the row of the candidate result at position \<open>i\<close>
  is computed from the baseline entry at position \<open>i\<close>, whatever the names: it carries the
  candidate's name, its \<open>diffPercent\<close> is \<open>((dev - pr) / dev) * 100\<close> on the two \<open>fps\<close>
  converted to numbers, and it is regressed when that exceeds the threshold. Between
  averaged repeats the same formula is applied to the averages of the dev and the local
  page of one benchmark. Each of the three operations rounds to binary64. For a positive
  baseline the result is never NaN, a positive \<open>diffPercent\<close> (the arrow pointing down)
  means that the candidate has fewer FPS than the baseline, and a negative one that it
  has more. Baseline 60 against candidate 54 gives exactly 10, regressed at a threshold of
  5 with the arrow pointing down; baseline 100 against candidate 93 gives
  7.000000000000001, the binary64 value next above 7, which a threshold of 7 marks as
  regressed.
\<close>

theorem C1_diffPercent_by_position:
  "(i < length prResults \<and> baselineAt baseline i = Some b \<longrightarrow>
      t_name (compareAll perfChange prResults baseline ! i) = name (prResults ! i) \<and>
      diffPercent (compareAll perfChange prResults baseline ! i) =
        Num (js_mul (js_div (js_sub (Number (fps b)) (Number (fps (prResults ! i))))
                       (Number (fps b))) (Fin 100)) \<and>
      regression (compareAll perfChange prResults baseline ! i) =
        js_gt (js_mul (js_div (js_sub (Number (fps b)) (Number (fps (prResults ! i))))
                         (Number (fps b))) (Fin 100)) perfChange) \<and>
   c_diffPercent (compareScaled perfChange nm devR localR) =
     js_mul (js_div (js_sub (avg devR) (avg localR)) (avg devR)) (Fin 100) \<and>
   (0 < x \<longrightarrow>
      js_mul (js_div (js_sub (Fin x) (Fin y)) (Fin x)) (Fin 100) \<noteq> NaN \<and>
      (js_gt (js_mul (js_div (js_sub (Fin x) (Fin y)) (Fin x)) (Fin 100)) (Fin 0) \<longrightarrow> y < x) \<and>
      (js_lt (js_mul (js_div (js_sub (Fin x) (Fin y)) (Fin x)) (Fin 100)) (Fin 0) \<longrightarrow> x < y) \<and>
      (arrow (compareRow perfChange \<lparr>name = n, fps = Num (Fin y)\<rparr>
                (Some \<lparr>name = m, fps = Num (Fin x)\<rparr>)) = Some ArrowDown \<longrightarrow> y < x) \<and>
      (c_arrow (compareScaled perfChange nm \<lparr>avg = Fin x, stddev = s1, samples = x1\<rparr>
                  \<lparr>avg = Fin y, stddev = s2, samples = x2\<rparr>) = ArrowDown \<longrightarrow> y < x)) \<and>
   compareRow (Fin 5) \<lparr>name = n, fps = Num (Fin 54)\<rparr> (Some \<lparr>name = m, fps = Num (Fin 60)\<rparr>) =
     \<lparr>t_name = n, devFPS = Num (Fin 60), prFPS = Num (Fin 54), diffPercent = Num (Fin 10),
      regression = True, arrow = Some ArrowDown\<rparr> \<and>
   compareScaled (Fin 5) nm \<lparr>avg = Fin 60, stddev = s1, samples = x1\<rparr>
       \<lparr>avg = Fin 54, stddev = s2, samples = x2\<rparr> =
     \<lparr>c_name = nm, devResult = \<lparr>avg = Fin 60, stddev = s1, samples = x1\<rparr>,
      localResult = \<lparr>avg = Fin 54, stddev = s2, samples = x2\<rparr>,
      c_diffPercent = Fin 10, c_regression = True, c_arrow = ArrowDown\<rparr> \<and>
   compareRow (Fin 7) \<lparr>name = n, fps = Num (Fin 93)\<rparr> (Some \<lparr>name = m, fps = Num (Fin 100)\<rparr>) =
     \<lparr>t_name = n, devFPS = Num (Fin 100), prFPS = Num (Fin 93),
      diffPercent = Num (Fin (7881299347898369 / 1125899906842624)),
      regression = True, arrow = Some ArrowDown\<rparr>"
proof -
  let ?d = "js_mul (js_div (js_sub (Fin x) (Fin y)) (Fin x)) (Fin 100)"
  have pos: "i < length prResults \<and> baselineAt baseline i = Some b \<longrightarrow>
      t_name (compareAll perfChange prResults baseline ! i) = name (prResults ! i) \<and>
      diffPercent (compareAll perfChange prResults baseline ! i) =
        Num (js_mul (js_div (js_sub (Number (fps b)) (Number (fps (prResults ! i))))
                       (Number (fps b))) (Fin 100)) \<and>
      regression (compareAll perfChange prResults baseline ! i) =
        js_gt (js_mul (js_div (js_sub (Number (fps b)) (Number (fps (prResults ! i))))
                         (Number (fps b))) (Fin 100)) perfChange"
    by (simp add: compareAll_nth compareRow_def Let_def)
  have code5: "c_diffPercent (compareScaled perfChange nm devR localR) =
     js_mul (js_div (js_sub (avg devR) (avg localR)) (avg devR)) (Fin 100)"
    by (simp add: compareScaled_def Let_def)
  have sgn: "0 < x \<longrightarrow>
      ?d \<noteq> NaN \<and> (js_gt ?d (Fin 0) \<longrightarrow> y < x) \<and> (js_lt ?d (Fin 0) \<longrightarrow> x < y) \<and>
      (arrow (compareRow perfChange \<lparr>name = n, fps = Num (Fin y)\<rparr>
                (Some \<lparr>name = m, fps = Num (Fin x)\<rparr>)) = Some ArrowDown \<longrightarrow> y < x) \<and>
      (c_arrow (compareScaled perfChange nm \<lparr>avg = Fin x, stddev = s1, samples = x1\<rparr>
                  \<lparr>avg = Fin y, stddev = s2, samples = x2\<rparr>) = ArrowDown \<longrightarrow> y < x)"
  proof
    assume "0 < x"
    from diff_positive_slower[OF this, of y]
    have d: "?d \<noteq> NaN" "js_gt ?d (Fin 0) \<longrightarrow> y < x" "js_lt ?d (Fin 0) \<longrightarrow> x < y"
      by simp_all
    have a4: "arrow (compareRow perfChange \<lparr>name = n, fps = Num (Fin y)\<rparr>
                (Some \<lparr>name = m, fps = Num (Fin x)\<rparr>)) = Some ArrowDown \<longrightarrow> y < x"
      using d(2) by (simp add: compareRow_def Let_def split: if_splits)
    have a5: "c_arrow (compareScaled perfChange nm \<lparr>avg = Fin x, stddev = s1, samples = x1\<rparr>
                  \<lparr>avg = Fin y, stddev = s2, samples = x2\<rparr>) = ArrowDown \<longrightarrow> y < x"
      using d(2) by (simp add: compareScaled_def Let_def split: if_splits)
    from d a4 a5 show "?d \<noteq> NaN \<and> (js_gt ?d (Fin 0) \<longrightarrow> y < x) \<and> (js_lt ?d (Fin 0) \<longrightarrow> x < y) \<and>
      (arrow (compareRow perfChange \<lparr>name = n, fps = Num (Fin y)\<rparr>
                (Some \<lparr>name = m, fps = Num (Fin x)\<rparr>)) = Some ArrowDown \<longrightarrow> y < x) \<and>
      (c_arrow (compareScaled perfChange nm \<lparr>avg = Fin x, stddev = s1, samples = x1\<rparr>
                  \<lparr>avg = Fin y, stddev = s2, samples = x2\<rparr>) = ArrowDown \<longrightarrow> y < x)"
      by blast
  qed
  have d60: "js_mul (js_div (js_sub (Fin 60) (Fin 54)) (Fin 60)) (Fin 100) = Fin 10"
    by (simp add: js_eval)
  have ex4: "compareRow (Fin 5) \<lparr>name = n, fps = Num (Fin 54)\<rparr> (Some \<lparr>name = m, fps = Num (Fin 60)\<rparr>) =
     \<lparr>t_name = n, devFPS = Num (Fin 60), prFPS = Num (Fin 54), diffPercent = Num (Fin 10),
      regression = True, arrow = Some ArrowDown\<rparr>"
    by (simp add: compareRow_def Let_def d60 js_gt_Fin)
  have a60: "allowedPercent (Fin 5) (Fin 60) = Fin 5"
    by (simp add: allowedPercent_def Let_def Math_max_Fin js_eval)
  have ex5: "compareScaled (Fin 5) nm \<lparr>avg = Fin 60, stddev = s1, samples = x1\<rparr>
       \<lparr>avg = Fin 54, stddev = s2, samples = x2\<rparr> =
     \<lparr>c_name = nm, devResult = \<lparr>avg = Fin 60, stddev = s1, samples = x1\<rparr>,
      localResult = \<lparr>avg = Fin 54, stddev = s2, samples = x2\<rparr>,
      c_diffPercent = Fin 10, c_regression = True, c_arrow = ArrowDown\<rparr>"
    by (simp add: compareScaled_def Let_def d60 a60 js_gt_Fin)
  have d100: "js_mul (js_div (js_sub (Fin 100) (Fin 93)) (Fin 100)) (Fin 100) =
      Fin (7881299347898369 / 1125899906842624)"
    by (simp add: js_eval)
  have ex7: "compareRow (Fin 7) \<lparr>name = n, fps = Num (Fin 93)\<rparr> (Some \<lparr>name = m, fps = Num (Fin 100)\<rparr>) =
     \<lparr>t_name = n, devFPS = Num (Fin 100), prFPS = Num (Fin 93),
      diffPercent = Num (Fin (7881299347898369 / 1125899906842624)),
      regression = True, arrow = Some ArrowDown\<rparr>"
    by (simp add: compareRow_def Let_def d100 js_gt_Fin)
  from pos code5 sgn ex4 ex5 ex7 show ?thesis
    by blast
qed

theorem C1_diffPercent_witness:
  "(0::nat) < length [\<lparr>name = ''text'', fps = Num (Fin 30)\<rparr>] \<and>
   baselineAt [Some \<lparr>name = ''sprites'', fps = Num (Fin 40)\<rparr>] 0 =
     Some \<lparr>name = ''sprites'', fps = Num (Fin 40)\<rparr> \<and>
   t_name (compareAll (Fin 5) [\<lparr>name = ''text'', fps = Num (Fin 30)\<rparr>]
             [Some \<lparr>name = ''sprites'', fps = Num (Fin 40)\<rparr>] ! 0) = ''text'' \<and>
   diffPercent (compareAll (Fin 5) [\<lparr>name = ''text'', fps = Num (Fin 30)\<rparr>]
                  [Some \<lparr>name = ''sprites'', fps = Num (Fin 40)\<rparr>] ! 0) = Num (Fin 25) \<and>
   regression (compareAll (Fin 5) [\<lparr>name = ''text'', fps = Num (Fin 30)\<rparr>]
                 [Some \<lparr>name = ''sprites'', fps = Num (Fin 40)\<rparr>] ! 0) \<and>
   (0::real) < 40 \<and>
   js_gt (js_mul (js_div (js_sub (Fin 40) (Fin 30)) (Fin 40)) (Fin 100)) (Fin 0) \<and>
   arrow (compareRow (Fin 5) \<lparr>name = ''text'', fps = Num (Fin 30)\<rparr>
            (Some \<lparr>name = ''sprites'', fps = Num (Fin 40)\<rparr>)) = Some ArrowDown \<and>
   c_arrow (compareScaled (Fin 5) ''text'' \<lparr>avg = Fin 40, stddev = Fin 0, samples = []\<rparr>
              \<lparr>avg = Fin 30, stddev = Fin 0, samples = []\<rparr>) = ArrowDown \<and>
   (30::real) < 40 \<and>
   js_lt (js_mul (js_div (js_sub (Fin 40) (Fin 50)) (Fin 40)) (Fin 100)) (Fin 0) \<and>
   (40::real) < 50"
proof -
  have d30: "js_mul (js_div (js_sub (Fin 40) (Fin 30)) (Fin 40)) (Fin 100) = Fin 25"
    by (simp add: js_eval)
  have d50: "js_mul (js_div (js_sub (Fin 40) (Fin 50)) (Fin 40)) (Fin 100) = Fin (- 25)"
    by (simp add: js_eval)
  show ?thesis
    using
      C1_diffPercent_by_position[where i = 0
        and prResults = "[\<lparr>name = ''text'', fps = Num (Fin 30)\<rparr>]"
        and baseline = "[Some \<lparr>name = ''sprites'', fps = Num (Fin 40)\<rparr>]"
        and b = "\<lparr>name = ''sprites'', fps = Num (Fin 40)\<rparr>" and perfChange = "Fin 5"
        and x = 40 and y = 30 and n = "''text''" and m = "''sprites''" and nm = "''text''"
        and ?s1.0 = "Fin 0" and ?s2.0 = "Fin 0" and ?x1.0 = "[]" and ?x2.0 = "[]"]
      C1_diffPercent_by_position[where i = 0 and prResults = "[]" and baseline = "[]"
        and x = 40 and y = 50]
    by (simp add: baselineAt_def compareRow_def compareScaled_def Let_def d30 d50 js_gt_Fin
        js_lt_def)
qed





text \<open>
  C4 (the code at the failing input). In \<open>run\<close> of src/unnamed/part_004 the wait for the
  result of the only page times out: the invocation fails with the timeout's message and
  the server is closed, but the page is still open and the browser still runs. The same
  holds when the navigation to the page throws.
\<close>

theorem C4_timeout_leaves_page_open:
  "failed (run env_timeout) = [[Lit ''page.waitForFunction: Timeout 30000ms exceeded.'']] \<and>
   \<not> serverListening (run env_timeout) \<and>
   openPages (run env_timeout) = 1 \<and>
   browserRunning (run env_timeout) \<and>
   openPages (run (env_steady\<lparr>visits := [GotoThrows (Error ''net::ERR_CONNECTION_REFUSED'')]\<rparr>)) = 1 \<and>
   browserRunning (run (env_steady\<lparr>visits := [GotoThrows (Error ''net::ERR_CONNECTION_REFUSED'')]\<rparr>))"
  by (simp add: run_def tryBlock_def env_timeout_def env_steady_def initial_def setFailed_def
      Let_def)

text \<open>
  C5 (counterexample). The invocation \<open>env_sink_down\<close> has one row, not regressed, and
  fails, with the message of the error of the sink; \<open>env_steady\<close>, which differs only in
  that its sink works, does not fail. The same holds with averaged repeats.
\<close>

theorem C5_sink_failure_counterexample:
  "map regression (tableRows (run env_sink_down)) = [False] \<and>
   failed (run env_sink_down) = [[Lit ''Bad credentials'']] \<and>
   invocationFailed (run env_sink_down) \<and>
   \<not> invocationFailed (run env_steady) \<and>
   failed (run_avg env_avg_sink_down) = [[Lit ''Bad credentials'']]"
proof -
  let ?p = "\<lparr>name = ''Sprites (50k)'', fps = Num (Fin 60)\<rparr>"
  have row: "compareAll (Fin 5) [?p] [Some ?p] =
      [\<lparr>t_name = ''Sprites (50k)'', devFPS = Num (Fin 60), prFPS = Num (Fin 60),
        diffPercent = Num (Fin 0), regression = False, arrow = Some ArrowUp\<rparr>]"
    by (simp add: compareAll_def baselineAt_def compareRow_def Let_def js_eval)
  obtain body where body: "buildBody (Fin 5) (compareAll (Fin 5) [?p] [Some ?p]) = Inr (body, False)"
    using buildBody_compareAll[of "Fin 5" "[?p]" "[Some ?p]"] by (auto simp: row)
  have rows: "map regression (tableRows (run env_sink_down)) = [False]"
    using body row
    by (simp add: run_def tryBlock_def compareAndReport_def env_sink_down_def env_steady_def
        initial_def setFailed_def Let_def postComment_def andThen_def)
  have down: "failed (run env_sink_down) = [[Lit ''Bad credentials'']]"
    using failed_run[of env_sink_down "[?p]" "[Some ?p]"]
    by (simp add: env_sink_down_def env_steady_def sinkThrows_def postComment_def andThen_def)
  have steady: "failed (run env_steady) = []"
    using failed_run[of env_steady "[?p]" "[Some ?p]"] row
    by (simp add: env_steady_def sinkThrows_def postComment_def andThen_def)
  have single: "runSingleBenchmark (Completed ?p) s w = (Inr (s @ [Num (Fin 60)]), w)" for s w
    by (simp add: runSingleBenchmark_def Let_def)
  have "\<exists>cs. fst (runBenchmarks (Fin 5) (benchmarks env_avg_sink_down) []
                (initial\<lparr>serverListening := True\<rparr>)) = Inr cs"
    by (simp add: env_avg_sink_down_def runIsolatedBenchmark_def upt_REPEATS single Let_def)
  then obtain cs where "fst (runBenchmarks (a_perfChangeInput env_avg_sink_down)
      (benchmarks env_avg_sink_down) [] (initial\<lparr>serverListening := True\<rparr>)) = Inr cs"
    by (auto simp: env_avg_sink_down_def)
  from failed_run_avg[OF _ _ _ this]
  have avg: "failed (run_avg env_avg_sink_down) = [[Lit ''Bad credentials'']]"
    by (simp add: env_avg_sink_down_def sinkThrows_def postComment_def andThen_def)
  from rows down steady avg show ?thesis
    by (simp add: invocationFailed_def)
qed

text \<open>
  C5 (amended). Take a run whose benchmarks complete (and, against a baseline file, whose
  baseline parses). If the interaction with the sink throws nothing, or there is none for
  lack of a token or of a pull request, the run fails exactly when a row is regressed. If
  listing, updating or creating the comment throws, the error reaches the \<open>catch\<close> clause
  of \<open>run\<close>: the run fails, with the message of that error, whatever the rows say.
\<close>

theorem C5_sink_failure_fails_invocation:
  "(distPathExists e \<and> pixiExists e \<and> visits e = map Completed prResults \<and>
    (case baselineFile e of None \<Rightarrow> Inr [] | Some parsed \<Rightarrow> parsed) = Inr baseline \<longrightarrow>
      (case sinkThrows (sinkEnv e) of
         None \<Rightarrow>
           invocationFailed (run e) =
             (\<exists>r\<in>set (compareAll (perfChangeInput e) prResults baseline). regression r)
       | Some err \<Rightarrow> invocationFailed (run e) \<and> failed (run e) = [[Lit (message err)]])) \<and>
   (a_distPathExists a \<and> a_pixiExists a \<and> benchmarks a \<noteq> [] \<and>
    fst (runBenchmarks (a_perfChangeInput a) (benchmarks a) []
           (initial\<lparr>serverListening := True\<rparr>)) = Inr comparisons \<longrightarrow>
      (case sinkThrows (a_sinkEnv a) of
         None \<Rightarrow> invocationFailed (run_avg a) = (\<exists>c\<in>set comparisons. c_regression c)
       | Some err \<Rightarrow> invocationFailed (run_avg a) \<and> failed (run_avg a) = [[Lit (message err)]]))"
proof -
  have one: "(case sinkThrows (sinkEnv e) of
         None \<Rightarrow>
           invocationFailed (run e) =
             (\<exists>r\<in>set (compareAll (perfChangeInput e) prResults baseline). regression r)
       | Some err \<Rightarrow> invocationFailed (run e) \<and> failed (run e) = [[Lit (message err)]])"
    if "distPathExists e" "pixiExists e" "visits e = map Completed prResults"
      "(case baselineFile e of None \<Rightarrow> Inr [] | Some parsed \<Rightarrow> parsed) = Inr baseline"
    using failed_run[OF that]
    by (simp add: invocationFailed_def split: option.splits)
  have two: "(case sinkThrows (a_sinkEnv a) of
         None \<Rightarrow> invocationFailed (run_avg a) = (\<exists>c\<in>set comparisons. c_regression c)
       | Some err \<Rightarrow> invocationFailed (run_avg a) \<and> failed (run_avg a) = [[Lit (message err)]])"
    if "a_distPathExists a" "a_pixiExists a" "benchmarks a \<noteq> []"
      "fst (runBenchmarks (a_perfChangeInput a) (benchmarks a) []
           (initial\<lparr>serverListening := True\<rparr>)) = Inr comparisons"
    using failed_run_avg[OF that]
    by (simp add: invocationFailed_def split: option.splits)
  from one two show ?thesis by blast
qed

theorem C5_sink_failure_witness:
  "distPathExists env_steady \<and> pixiExists env_steady \<and>
   sinkThrows (sinkEnv env_steady) = None \<and> \<not> invocationFailed (run env_steady) \<and>
   sinkThrows (sinkEnv env_sink_down) = Some (Error ''Bad credentials'') \<and>
   invocationFailed (run env_sink_down) \<and>
   a_distPathExists env_avg_sink_down \<and> a_pixiExists env_avg_sink_down \<and>
   sinkThrows (a_sinkEnv env_avg_sink_down) = Some (Error ''Bad credentials'') \<and>
   invocationFailed (run_avg env_avg_sink_down)"
proof -
  let ?p = "\<lparr>name = ''Sprites (50k)'', fps = Num (Fin 60)\<rparr>"
  have row: "compareAll (Fin 5) [?p] [Some ?p] =
      [\<lparr>t_name = ''Sprites (50k)'', devFPS = Num (Fin 60), prFPS = Num (Fin 60),
        diffPercent = Num (Fin 0), regression = False, arrow = Some ArrowUp\<rparr>]"
    by (simp add: compareAll_def baselineAt_def compareRow_def Let_def js_eval)
  have single: "runSingleBenchmark (Completed ?p) s w = (Inr (s @ [Num (Fin 60)]), w)" for s w
    by (simp add: runSingleBenchmark_def Let_def)
  have "\<exists>cs. fst (runBenchmarks (Fin 5) (benchmarks env_avg_sink_down) []
                (initial\<lparr>serverListening := True\<rparr>)) = Inr cs"
    by (simp add: env_avg_sink_down_def runIsolatedBenchmark_def upt_REPEATS single Let_def)
  then obtain cs where cs: "fst (runBenchmarks (a_perfChangeInput env_avg_sink_down)
      (benchmarks env_avg_sink_down) [] (initial\<lparr>serverListening := True\<rparr>)) = Inr cs"
    by (auto simp: env_avg_sink_down_def)
  show ?thesis
    using
      C5_sink_failure_fails_invocation[where e = env_steady and prResults = "[?p]"
        and baseline = "[Some ?p]" and a = env_avg_sink_down and comparisons = cs]
      C5_sink_failure_fails_invocation[where e = env_sink_down and prResults = "[?p]"
        and baseline = "[Some ?p]" and a = env_avg_sink_down and comparisons = cs]
      cs row
    by (simp add: env_sink_down_def env_steady_def env_avg_sink_down_def sinkThrows_def
        postComment_def andThen_def)
qed

text \<open>
  C6 (counterexample). Dev and PR both at 60 FPS: \<open>diffPercent\<close> is exactly zero, and the
  arrow is the one pointing up, in both comparisons; it is not absent.
\<close>

theorem C6_zero_diff_counterexample:
  "diffPercent (compareRow (Fin 5) \<lparr>name = ''Sprites (50k)'', fps = Num (Fin 60)\<rparr>
      (Some \<lparr>name = ''Sprites (50k)'', fps = Num (Fin 60)\<rparr>)) = Num (Fin 0) \<and>
   arrow (compareRow (Fin 5) \<lparr>name = ''Sprites (50k)'', fps = Num (Fin 60)\<rparr>
      (Some \<lparr>name = ''Sprites (50k)'', fps = Num (Fin 60)\<rparr>)) = Some ArrowUp \<and>
   c_diffPercent (compareScaled (Fin 5) ''sprite'' \<lparr>avg = Fin 60, stddev = Fin 0, samples = []\<rparr>
      \<lparr>avg = Fin 60, stddev = Fin 0, samples = []\<rparr>) = Fin 0 \<and>
   c_arrow (compareScaled (Fin 5) ''sprite'' \<lparr>avg = Fin 60, stddev = Fin 0, samples = []\<rparr>
      \<lparr>avg = Fin 60, stddev = Fin 0, samples = []\<rparr>) = ArrowUp"
  by (simp add: compareRow_def compareScaled_def Let_def js_eval)

text \<open>
  C6 (amended). A row without a baseline entry has no \<open>diffPercent\<close> and no arrow. A row
  with one has a \<open>diffPercent\<close>, and so has every comparison of averaged repeats; there the
  arrow points down when \<open>diffPercent > 0\<close> and up otherwise, that is when \<open>diffPercent\<close> is
  negative, exactly zero or NaN.
\<close>

theorem C6_arrow_of_diffPercent:
  "diffPercent (compareRow t p None) = Null \<and> arrow (compareRow t p None) = None \<and>
   (\<exists>d. diffPercent (compareRow t p (Some b)) = Num d \<and>
        arrow (compareRow t p (Some b)) = Some (if js_gt d (Fin 0) then ArrowDown else ArrowUp)) \<and>
   c_arrow (compareScaled t nm devR localR) =
     (if js_gt (c_diffPercent (compareScaled t nm devR localR)) (Fin 0)
      then ArrowDown else ArrowUp) \<and>
   (\<not> js_gt x (Fin 0)) = (js_lt x (Fin 0) \<or> x = Fin 0 \<or> x = NZero \<or> x = NaN)"
proof -
  have "(\<not> js_gt x (Fin 0)) = (js_lt x (Fin 0) \<or> x = Fin 0 \<or> x = NZero \<or> x = NaN)"
    by (cases x) (auto simp: js_gt_def js_lt_def)
  then show ?thesis
    by (simp add: compareRow_def compareScaled_def Let_def)
qed

text \<open>
  C7 (counterexample). The candidate results hold the one scenario \<open>new-scene\<close>, which the
  baseline file does not have; the baseline file holds the one scenario \<open>old-scene\<close>, which
  the candidate results do not have. The comparison against the baseline file pairs the
  two by their position: the row of \<open>new-scene\<close> has a \<open>devFPS\<close> and a \<open>diffPercent\<close>, is
  regressed, and the invocation fails. And a baseline entry beyond the candidate results
  has no row at all.
\<close>

theorem C7_candidate_only_counterexample:
  "compareAll (Fin 5) [\<lparr>name = ''new-scene'', fps = Num (Fin 30)\<rparr>]
     [Some \<lparr>name = ''old-scene'', fps = Num (Fin 60)\<rparr>] =
     [\<lparr>t_name = ''new-scene'', devFPS = Num (Fin 60), prFPS = Num (Fin 30),
       diffPercent = Num (Fin 50), regression = True, arrow = Some ArrowDown\<rparr>] \<and>
   invocationFailed
     (run (env_steady\<lparr>visits := [Completed \<lparr>name = ''new-scene'', fps = Num (Fin 30)\<rparr>],
                      baselineFile := Some (Inr [Some \<lparr>name = ''old-scene'', fps = Num (Fin 60)\<rparr>])\<rparr>)) \<and>
   map t_name
     (compareAll (Fin 5) [\<lparr>name = ''sprites'', fps = Num (Fin 60)\<rparr>]
        [Some \<lparr>name = ''sprites'', fps = Num (Fin 60)\<rparr>,
         Some \<lparr>name = ''old-scene'', fps = Num (Fin 60)\<rparr>]) = [''sprites'']"
proof -
  let ?new = "\<lparr>name = ''new-scene'', fps = Num (Fin 30)\<rparr>"
  let ?old = "\<lparr>name = ''old-scene'', fps = Num (Fin 60)\<rparr>"
  let ?e = "env_steady\<lparr>visits := [Completed ?new], baselineFile := Some (Inr [Some ?old])\<rparr>"
  have row: "compareAll (Fin 5) [?new] [Some ?old] =
     [\<lparr>t_name = ''new-scene'', devFPS = Num (Fin 60), prFPS = Num (Fin 30),
       diffPercent = Num (Fin 50), regression = True, arrow = Some ArrowDown\<rparr>]"
    by (simp add: compareAll_def baselineAt_def compareRow_def js_eval)
  have "failed (run ?e) \<noteq> []"
    using failed_run[of ?e "[?new]" "[Some ?old]"] row
    by (simp add: env_steady_def sinkThrows_def postComment_def andThen_def)
  then have fails: "invocationFailed (run ?e)"
    by (simp add: invocationFailed_def)
  have none: "map t_name
     (compareAll (Fin 5) [\<lparr>name = ''sprites'', fps = Num (Fin 60)\<rparr>]
        [Some \<lparr>name = ''sprites'', fps = Num (Fin 60)\<rparr>, Some ?old]) = [''sprites'']"
    by (simp add: compareAll_def compareRow_def baselineAt_def Let_def)
  from row fails none show ?thesis by simp
qed

text \<open>
  C7 (amended). Against the baseline file there is one row for each candidate result and
  none for a baseline entry beyond them. The row of a candidate result at whose position
  the baseline file has no entry has no \<open>devFPS\<close>, no \<open>diffPercent\<close>, no arrow, and is not
  regressed, and the verdict built with the body is that of the rows which have a baseline
  entry at their position; a candidate result at whose position the baseline file has an
  entry is compared with that entry, whatever the two names. In the grouping of dev and
  local results by name, a side of a group is absent exactly when no result of that name
  came from that side; the row of a group with an absent side has no \<open>diffPercent\<close>, no
  arrow, and is not regressed; and \<open>regressionDetected\<close> is that of the rows with both
  sides.
\<close>

theorem C7_one_sided_row_by_position:
  "length (compareAll t prResults baseline) = length prResults \<and>
   (i < length prResults \<and> baselineAt baseline i = None \<longrightarrow>
      compareAll t prResults baseline ! i =
        \<lparr>t_name = name (prResults ! i), devFPS = Null,
         prFPS = Num (Number (fps (prResults ! i))), diffPercent = Null,
         regression = False, arrow = None\<rparr>) \<and>
   (i < length prResults \<and> baselineAt baseline i = Some b \<longrightarrow>
      compareAll t prResults baseline ! i = compareRow t (prResults ! i) (Some b) \<and>
      t_name (compareAll t prResults baseline ! i) = name (prResults ! i) \<and>
      devFPS (compareAll t prResults baseline ! i) = Num (Number (fps b)) \<and>
      diffPercent (compareAll t prResults baseline ! i) \<noteq> Null) \<and>
   (\<exists>body. buildBody t (compareAll t prResults baseline) =
      Inr (body, \<exists>j<length prResults. baselineAt baseline j \<noteq> None \<and>
                   regression (compareAll t prResults baseline ! j))) \<and>
   ((nm, v) \<in> set (groupResults rawResults []) \<longrightarrow>
      eq_null (dev v) = (\<not> (\<exists>r\<in>set rawResults. r_name r = nm \<and> r_variant r = Dev)) \<and>
      eq_null (local v) = (\<not> (\<exists>r\<in>set rawResults. r_name r = nm \<and> r_variant r = Local))) \<and>
   (eq_null (dev v) \<or> eq_null (local v) \<longrightarrow>
      groupRow t (nm, v) =
        \<lparr>g_name = nm, g_devFPS = dev v, g_localFPS = local v, g_diffPercent = Null,
         g_regression = False, g_arrow = None\<rparr>) \<and>
   regressionDetected_of (groupRows t rawResults) False =
     (\<exists>r\<in>set (groupRows t rawResults).
        \<not> eq_null (g_devFPS r) \<and> \<not> eq_null (g_localFPS r) \<and> g_regression r)"
proof -
  let ?rows = "compareAll t prResults baseline"
  have len: "length ?rows = length prResults"
    by (simp add: compareAll_def)
  have absent: "i < length prResults \<and> baselineAt baseline i = None \<longrightarrow>
      ?rows ! i =
        \<lparr>t_name = name (prResults ! i), devFPS = Null,
         prFPS = Num (Number (fps (prResults ! i))), diffPercent = Null,
         regression = False, arrow = None\<rparr>"
    by (simp add: compareAll_nth compareRow_def)
  have present: "i < length prResults \<and> baselineAt baseline i = Some b \<longrightarrow>
      ?rows ! i = compareRow t (prResults ! i) (Some b) \<and>
      t_name (?rows ! i) = name (prResults ! i) \<and>
      devFPS (?rows ! i) = Num (Number (fps b)) \<and>
      diffPercent (?rows ! i) \<noteq> Null"
    by (simp add: compareAll_nth compareRow_def Let_def)
  have "(\<exists>r\<in>set ?rows. regression r) =
        (\<exists>j<length prResults. baselineAt baseline j \<noteq> None \<and> regression (?rows ! j))"
  proof
    assume "\<exists>r\<in>set ?rows. regression r"
    then obtain j where j: "j < length ?rows" "regression (?rows ! j)"
      by (auto simp: in_set_conv_nth)
    then have "baselineAt baseline j \<noteq> None"
      using len by (auto simp: compareAll_nth compareRow_def split: option.splits)
    with j len show "\<exists>j<length prResults. baselineAt baseline j \<noteq> None \<and> regression (?rows ! j)"
      by auto
  next
    assume "\<exists>j<length prResults. baselineAt baseline j \<noteq> None \<and> regression (?rows ! j)"
    then obtain j where "j < length ?rows" "regression (?rows ! j)"
      using len by auto
    then show "\<exists>r\<in>set ?rows. regression r"
      using nth_mem by blast
  qed
  then have verdict: "\<exists>body. buildBody t ?rows =
      Inr (body, \<exists>j<length prResults. baselineAt baseline j \<noteq> None \<and> regression (?rows ! j))"
    using buildBody_compareAll[of t prResults baseline] by simp
  have side: "eq_null (dev v) = (\<not> (\<exists>r\<in>set rawResults. r_name r = nm \<and> r_variant r = Dev)) \<and>
      eq_null (local v) = (\<not> (\<exists>r\<in>set rawResults. r_name r = nm \<and> r_variant r = Local))"
    if "(nm, v) \<in> set (groupResults rawResults [])"
  proof -
    have "distinct (map fst (groupResults rawResults []))"
      by (rule distinct_groupResults) simp
    with that have "map_of (groupResults rawResults []) nm = Some v"
      by simp
    from groupResults_fields[OF this] show ?thesis by simp
  qed
  have row: "eq_null (dev v) \<or> eq_null (local v) \<longrightarrow>
      groupRow t (nm, v) =
        \<lparr>g_name = nm, g_devFPS = dev v, g_localFPS = local v, g_diffPercent = Null,
         g_regression = False, g_arrow = None\<rparr>"
    by (simp add: groupRow_def Let_def)
  have "g_regression r \<longrightarrow> \<not> eq_null (g_devFPS r) \<and> \<not> eq_null (g_localFPS r)"
    if "r \<in> set (groupRows t rawResults)" for r
    using that by (auto simp: groupRows_def groupRow_def Let_def split: if_splits)
  then have det: "regressionDetected_of (groupRows t rawResults) False =
     (\<exists>r\<in>set (groupRows t rawResults).
        \<not> eq_null (g_devFPS r) \<and> \<not> eq_null (g_localFPS r) \<and> g_regression r)"
    by (auto simp: regressionDetected_of_eq)
  from len absent present verdict side row det show ?thesis by blast
qed

theorem C7_one_sided_row_witness:
  "(0::nat) < length [\<lparr>name = ''Sprites (50k)'', fps = Num (Fin 60)\<rparr>] \<and>
   baselineAt [] 0 = None \<and>
   compareAll (Fin 5) [\<lparr>name = ''Sprites (50k)'', fps = Num (Fin 60)\<rparr>] [] ! 0 =
     \<lparr>t_name = ''Sprites (50k)'', devFPS = Null, prFPS = Num (Fin 60), diffPercent = Null,
      regression = False, arrow = None\<rparr> \<and>
   baselineAt [Some \<lparr>name = ''old-scene'', fps = Num (Fin 60)\<rparr>] 0 =
     Some \<lparr>name = ''old-scene'', fps = Num (Fin 60)\<rparr> \<and>
   t_name (compareAll (Fin 5) [\<lparr>name = ''Sprites (50k)'', fps = Num (Fin 60)\<rparr>]
             [Some \<lparr>name = ''old-scene'', fps = Num (Fin 60)\<rparr>] ! 0) = ''Sprites (50k)'' \<and>
   devFPS (compareAll (Fin 5) [\<lparr>name = ''Sprites (50k)'', fps = Num (Fin 60)\<rparr>]
             [Some \<lparr>name = ''old-scene'', fps = Num (Fin 60)\<rparr>] ! 0) = Num (Fin 60) \<and>
   (''sprite'', \<lparr>dev = Undefined, local = Num (Fin 60)\<rparr>) \<in>
     set (groupResults [\<lparr>r_name = ''sprite'', r_fps = Num (Fin 60), r_variant = Local\<rparr>] []) \<and>
   eq_null (dev \<lparr>dev = Undefined, local = Num (Fin 60)\<rparr>) \<and>
   groupRow (Fin 5) (''sprite'', \<lparr>dev = Undefined, local = Num (Fin 60)\<rparr>) =
     \<lparr>g_name = ''sprite'', g_devFPS = Undefined, g_localFPS = Num (Fin 60),
      g_diffPercent = Null, g_regression = False, g_arrow = None\<rparr>"
  using
    C7_one_sided_row_by_position[where t = "Fin 5"
      and prResults = "[\<lparr>name = ''Sprites (50k)'', fps = Num (Fin 60)\<rparr>]" and baseline = "[]"
      and i = 0 and nm = "''sprite''" and v = "\<lparr>dev = Undefined, local = Num (Fin 60)\<rparr>"
      and rawResults = "[\<lparr>r_name = ''sprite'', r_fps = Num (Fin 60), r_variant = Local\<rparr>]"]
    C7_one_sided_row_by_position[where t = "Fin 5"
      and prResults = "[\<lparr>name = ''Sprites (50k)'', fps = Num (Fin 60)\<rparr>]"
      and baseline = "[Some \<lparr>name = ''old-scene'', fps = Num (Fin 60)\<rparr>]"
      and b = "\<lparr>name = ''old-scene'', fps = Num (Fin 60)\<rparr>"
      and i = 0 and rawResults = "[]" and nm = "''sprite''"
      and v = "\<lparr>dev = Undefined, local = Num (Fin 60)\<rparr>"]
  by (simp add: baselineAt_def compareRow_def Let_def)




text \<open>
  C9 (counterexample). A result of 0 FPS compared with itself has \<open>diffPercent\<close> NaN, not 0;
  and with a threshold of -1 a result of 60 FPS compared with itself is a regression,
  which fails the invocation.
\<close>

theorem C9_self_comparison_counterexample:
  "diffPercent (compareRow (Fin 5) \<lparr>name = ''Sprites (50k)'', fps = Num (Fin 0)\<rparr>
      (Some \<lparr>name = ''Sprites (50k)'', fps = Num (Fin 0)\<rparr>)) = Num NaN \<and>
   regression (compareRow (Fin (- 1)) \<lparr>name = ''Sprites (50k)'', fps = Num (Fin 60)\<rparr>
      (Some \<lparr>name = ''Sprites (50k)'', fps = Num (Fin 60)\<rparr>)) \<and>
   invocationFailed (run (env_steady\<lparr>perfChangeInput := Fin (- 1)\<rparr>))"
proof -
  let ?p = "\<lparr>name = ''Sprites (50k)'', fps = Num (Fin 60)\<rparr>"
  let ?e = "env_steady\<lparr>perfChangeInput := Fin (- 1)\<rparr>"
  have r: "regression (compareRow (Fin (- 1)) ?p (Some ?p))"
    by (simp add: compareRow_def Let_def self_diff js_eval)
  have "failed (run ?e) \<noteq> []"
    using failed_run[of ?e "[?p]" "[Some ?p]"] r
    by (simp add: env_steady_def sinkThrows_def postComment_def andThen_def compareAll_def
        baselineAt_def)
  then show ?thesis using r
    by (simp add: invocationFailed_def compareRow_def Let_def self_diff)
qed

text \<open>
  C9 (amended). Comparing a result set against itself compares every result with itself.
  The row of a result whose \<open>fps\<close> is a finite number other than zero has \<open>diffPercent\<close> 0;
  the row of any other (an \<open>fps\<close> of 0, missing, or not finite) has \<open>diffPercent\<close> NaN. If
  the threshold is not negative, no row is regressed, and an invocation whose benchmarks
  complete and whose comment is posted does not fail.
\<close>

theorem C9_self_comparison:
  "compareAll t prs (map Some prs) = map (\<lambda>p. compareRow t p (Some p)) prs \<and>
   (Number (fps p) = Fin v \<and> v \<noteq> 0 \<longrightarrow>
      finite_val (Number (diffPercent (compareRow t p (Some p)))) = Some 0) \<and>
   (\<not> (\<exists>v. Number (fps p) = Fin v \<and> v \<noteq> 0) \<longrightarrow>
      diffPercent (compareRow t p (Some p)) = Num NaN) \<and>
   (\<not> js_lt t (Fin 0) \<longrightarrow> \<not> regression (compareRow t p (Some p))) \<and>
   (distPathExists e \<and> pixiExists e \<and> visits e = map Completed prs \<and>
    baselineFile e = Some (Inr (map Some prs)) \<and> sinkThrows (sinkEnv e) = None \<and>
    \<not> js_lt (perfChangeInput e) (Fin 0) \<longrightarrow>
      \<not> invocationFailed (run e))"
proof -
  have a: "Number (fps p) = Fin v \<and> v \<noteq> 0 \<longrightarrow>
      finite_val (Number (diffPercent (compareRow t p (Some p)))) = Some 0"
    by (simp add: compareRow_def Let_def self_diff)
  have b: "\<not> (\<exists>v. Number (fps p) = Fin v \<and> v \<noteq> 0) \<longrightarrow>
      diffPercent (compareRow t p (Some p)) = Num NaN"
    by (cases "Number (fps p)") (simp_all add: compareRow_def Let_def self_diff)
  have c: "\<not> js_lt t (Fin 0) \<longrightarrow> \<not> regression (compareRow t p (Some p))"
    using self_not_regressed by blast
  have d: "\<not> invocationFailed (run e)"
    if h: "distPathExists e" "pixiExists e" "visits e = map Completed prs"
      "baselineFile e = Some (Inr (map Some prs))" "sinkThrows (sinkEnv e) = None"
      "\<not> js_lt (perfChangeInput e) (Fin 0)"
  proof -
    have "\<not> (\<exists>r\<in>set (compareAll (perfChangeInput e) prs (map Some prs)). regression r)"
      using self_not_regressed[OF h(6)] by (auto simp: compareAll_self)
    then show ?thesis
      using failed_run[of e prs "map Some prs"] h
      by (simp add: invocationFailed_def)
  qed
  from a b c d compareAll_self[of t prs] show ?thesis by blast
qed

theorem C9_self_comparison_witness:
  "Number (fps \<lparr>name = ''Sprites (50k)'', fps = Num (Fin 60)\<rparr>) = Fin 60 \<and> (60::real) \<noteq> 0 \<and>
   finite_val (Number (diffPercent (compareRow (Fin 5)
      \<lparr>name = ''Sprites (50k)'', fps = Num (Fin 60)\<rparr>
      (Some \<lparr>name = ''Sprites (50k)'', fps = Num (Fin 60)\<rparr>)))) = Some 0 \<and>
   \<not> (\<exists>v. Number (fps \<lparr>name = ''Sprites (50k)'', fps = Null\<rparr>) = Fin v \<and> v \<noteq> 0) \<and>
   diffPercent (compareRow (Fin 5) \<lparr>name = ''Sprites (50k)'', fps = Null\<rparr>
      (Some \<lparr>name = ''Sprites (50k)'', fps = Null\<rparr>)) = Num NaN \<and>
   \<not> js_lt (Fin 5) (Fin 0) \<and>
   \<not> regression (compareRow (Fin 5) \<lparr>name = ''Sprites (50k)'', fps = Num (Fin 60)\<rparr>
      (Some \<lparr>name = ''Sprites (50k)'', fps = Num (Fin 60)\<rparr>)) \<and>
   distPathExists env_steady \<and> pixiExists env_steady \<and>
   visits env_steady = map Completed [\<lparr>name = ''Sprites (50k)'', fps = Num (Fin 60)\<rparr>] \<and>
   baselineFile env_steady =
     Some (Inr (map Some [\<lparr>name = ''Sprites (50k)'', fps = Num (Fin 60)\<rparr>])) \<and>
   sinkThrows (sinkEnv env_steady) = None \<and>
   \<not> js_lt (perfChangeInput env_steady) (Fin 0) \<and>
   \<not> invocationFailed (run env_steady)"
  using
    C9_self_comparison[of "Fin 5" "[\<lparr>name = ''Sprites (50k)'', fps = Num (Fin 60)\<rparr>]"
      "\<lparr>name = ''Sprites (50k)'', fps = Num (Fin 60)\<rparr>" 60 env_steady]
    C9_self_comparison[of "Fin 5" "[]" "\<lparr>name = ''Sprites (50k)'', fps = Null\<rparr>" 0 env_steady]
  by (simp add: env_steady_def sinkThrows_def postComment_def andThen_def js_lt_def js_eval)

text \<open>
  C10. With a threshold of NaN no comparison marks a regression, whatever the FPS
  measured: not against the baseline file, not between averaged repeats, not between
  grouped dev and local results. An invocation with such a threshold whose benchmarks
  complete, whose baseline parses and whose comment is posted does not fail, and neither
  does an invocation with averaged repeats.
\<close>

theorem C10_nan_threshold_never_regresses:
  "\<not> regression (compareRow NaN p b) \<and>
   \<not> c_regression (compareScaled NaN nm devR localR) \<and>
   \<not> g_regression (groupRow NaN entry) \<and>
   (distPathExists e \<and> pixiExists e \<and> visits e = map Completed prResults \<and>
    (case baselineFile e of None \<Rightarrow> Inr [] | Some parsed \<Rightarrow> parsed) = Inr baseline \<and>
    sinkThrows (sinkEnv e) = None \<and> perfChangeInput e = NaN \<longrightarrow>
      failed (run e) = [] \<and> \<not> invocationFailed (run e)) \<and>
   (a_distPathExists a \<and> a_pixiExists a \<and> benchmarks a \<noteq> [] \<and>
    fst (runBenchmarks (a_perfChangeInput a) (benchmarks a) []
           (initial\<lparr>serverListening := True\<rparr>)) = Inr comparisons \<and>
    sinkThrows (a_sinkEnv a) = None \<and> a_perfChangeInput a = NaN \<longrightarrow>
      failed (run_avg a) = [] \<and> \<not> invocationFailed (run_avg a))"
proof -
  have r4: "\<not> regression (compareRow NaN p b)" for p b
    by (cases b) (simp_all add: compareRow_def Let_def js_NaN)
  have r5: "\<not> c_regression (compareScaled NaN nm devR localR)"
    by (simp add: compareScaled_def allowedPercent_def Let_def js_NaN)
  have r3: "\<not> g_regression (groupRow NaN entry)"
    by (simp add: groupRow_def Let_def js_NaN)
  have one: "failed (run e) = [] \<and> \<not> invocationFailed (run e)"
    if h: "distPathExists e" "pixiExists e" "visits e = map Completed prResults"
      "(case baselineFile e of None \<Rightarrow> Inr [] | Some parsed \<Rightarrow> parsed) = Inr baseline"
      "sinkThrows (sinkEnv e) = None" "perfChangeInput e = NaN"
  proof -
    have "\<not> (\<exists>r\<in>set (compareAll (perfChangeInput e) prResults baseline). regression r)"
      using r4 h(6) by (auto simp: compareAll_def)
    then show ?thesis
      using failed_run[OF h(1-4)] h(5) by (simp add: invocationFailed_def)
  qed
  have two: "failed (run_avg a) = [] \<and> \<not> invocationFailed (run_avg a)"
    if "a_distPathExists a" "a_pixiExists a" "benchmarks a \<noteq> []"
      "fst (runBenchmarks (a_perfChangeInput a) (benchmarks a) []
           (initial\<lparr>serverListening := True\<rparr>)) = Inr comparisons"
      "sinkThrows (a_sinkEnv a) = None" "a_perfChangeInput a = NaN"
    using run_avg_nan_threshold[OF that] by (simp add: invocationFailed_def)
  from r4 r5 r3 one two show ?thesis by blast
qed

theorem C10_nan_threshold_witness:
  "distPathExists (env_steady\<lparr>visits := [Completed \<lparr>name = ''Sprites (50k)'', fps = Num (Fin 1)\<rparr>],
                               perfChangeInput := NaN\<rparr>) \<and>
   sinkThrows (sinkEnv env_steady) = None \<and>
   regression (compareRow (Fin 5) \<lparr>name = ''Sprites (50k)'', fps = Num (Fin 1)\<rparr>
      (Some \<lparr>name = ''Sprites (50k)'', fps = Num (Fin 60)\<rparr>)) \<and>
   failed (run (env_steady\<lparr>visits := [Completed \<lparr>name = ''Sprites (50k)'', fps = Num (Fin 1)\<rparr>],
                            perfChangeInput := NaN\<rparr>)) = [] \<and>
   failed (run_avg
     \<lparr>a_distPath = ''dist'', a_distPathExists = True, a_pixiExists = True,
      benchmarks = [(''sprite'',
                     (\<lambda>i. Completed \<lparr>name = ''Sprites (50k)'', fps = Num (Fin 60)\<rparr>),
                     (\<lambda>i. Completed \<lparr>name = ''Sprites (50k)'', fps = Num (Fin 1)\<rparr>))],
      a_perfChangeInput = NaN, a_sinkEnv = sinkEnv env_steady\<rparr>) = []"
proof -
  let ?e = "env_steady\<lparr>visits := [Completed \<lparr>name = ''Sprites (50k)'', fps = Num (Fin 1)\<rparr>],
                        perfChangeInput := NaN\<rparr>"
  let ?a = "\<lparr>a_distPath = ''dist'', a_distPathExists = True, a_pixiExists = True,
      benchmarks = [(''sprite'',
                     (\<lambda>i. Completed \<lparr>name = ''Sprites (50k)'', fps = Num (Fin 60)\<rparr>),
                     (\<lambda>i. Completed \<lparr>name = ''Sprites (50k)'', fps = Num (Fin 1)\<rparr>))],
      a_perfChangeInput = NaN, a_sinkEnv = sinkEnv env_steady\<rparr>"
  have single: "runSingleBenchmark (Completed p) s w = (Inr (s @ [fps p]), w)" for p s w
    by (simp add: runSingleBenchmark_def Let_def)
  have "\<exists>cs. fst (runBenchmarks NaN (benchmarks ?a) [] (initial\<lparr>serverListening := True\<rparr>)) = Inr cs"
    by (simp add: runIsolatedBenchmark_def upt_REPEATS single Let_def)
  then obtain cs where cs: "fst (runBenchmarks (a_perfChangeInput ?a) (benchmarks ?a) []
      (initial\<lparr>serverListening := True\<rparr>)) = Inr cs"
    by auto
  show ?thesis
    using cs
      C10_nan_threshold_never_regresses[where e = ?e
        and prResults = "[\<lparr>name = ''Sprites (50k)'', fps = Num (Fin 1)\<rparr>]"
        and baseline = "[Some \<lparr>name = ''Sprites (50k)'', fps = Num (Fin 60)\<rparr>]"
        and a = ?a and comparisons = cs]
    by (simp add: env_steady_def sinkThrows_def postComment_def
        andThen_def compareRow_def Let_def js_eval)
qed

end
